theory Spec2Isabelle
  imports Main
begin

section \<open>Data model\<close>

text \<open>
  The development embeds the modules \<^verbatim>\<open>feed/session\<close> and \<^verbatim>\<open>feed/player\<close> of
  \<^verbatim>\<open>src/src/speaker.js\<close>.

  A JavaScript object that the code compares with \<^verbatim>\<open>===\<close> carries its identity in a field
  (\<open>obj\<close> for a play, \<open>ajax_obj\<close> for a request descriptor); \<^verbatim>\<open>===\<close> on two such
  objects is equality of that field. A play comes with its identity from the answer that
  delivers it; a request descriptor gets the next unused one. Identifiers (play, placement and station ids) and
  durations in milliseconds are natural numbers; a property that may be absent is an
  \<open>option\<close>, and the truthiness tests of the source are written out.
\<close>

record play =
  obj :: nat
  play_id :: nat
  audio_url :: string
  startPosition :: "nat option"
  liked :: "bool option"

record current_play =
  play :: play
  canSkip :: bool
  started :: bool
  retryCount :: nat

record ajax =
  ajax_obj :: nat
  data_formats :: string
  data_max_bitrate :: nat
  data_placement_id :: "nat option"
  data_station_id :: "nat option"

record pending_request =
  ajax :: ajax
  req_retryCount :: nat

record placement =
  placement_ident :: nat

record station =
  station_ident :: nat

text \<open>The \<^verbatim>\<open>config\<close> object of a Session. \<open>allocated\<close> counts the request descriptors
  created so far and supplies the identity of the next one. The transport settings
  (\<^verbatim>\<open>baseUrl\<close>, \<^verbatim>\<open>secure\<close>, \<^verbatim>\<open>timeOffset\<close>, \<^verbatim>\<open>clientId\<close>) are left to the transport.\<close>

record session =
  token :: "string option"
  secret :: "string option"
  placementId :: "nat option"
  placement :: "placement option"
  stationId :: "nat option"
  stations :: "station list option"
  formats :: string
  maxBitrate :: nat
  current :: "current_play option"
  pendingRequest :: "pending_request option"
  pendingPlay :: "play option"
  allocated :: nat

text \<open>What \<^verbatim>\<open>suspend\<close> returns and \<^verbatim>\<open>unsuspend\<close> takes: every key may be absent.\<close>

record saved =
  saved_placementId :: "nat option"
  saved_stationId :: "nat option"
  saved_placement :: "placement option"
  saved_stations :: "station list option"
  saved_play :: "play option"
  saved_canSkip :: bool

subsection \<open>Responses of the remote service\<close>

text \<open>A placement response is usable when it is non-null, successful and has a
  placement; every other response is \<open>NoPlacementInfo\<close>.\<close>

datatype placement_information = PlacementInfo placement "station list" | NoPlacementInfo

text \<open>The body of \<^verbatim>\<open>POST /play\<close>: a play on success, otherwise the error code if any.\<close>

datatype play_response = PlayOk play | PlayFailed "nat option"

record start_response =
  success :: bool
  can_skip :: bool

text \<open>A failed request: the HTTP status, and the error code and message of the body
  (\<open>None\<close> when the body does not parse or has no error).\<close>

record fail_response =
  status :: nat
  error_code :: "nat option"
  error_message :: string

subsection \<open>Effects\<close>

datatype event =
    PlacementChanged nat
  | StationChanged nat
  | PlacementEv "placement option"
  | StationsEv "station list option"
  | PlayActive play
  | PlayStarted play
  | PlayCompleted play
  | PlaysExhausted
  | SkipDenied
  | NotInUS string
  | InvalidCredentials
  | PlayPaused "play option"
  | PlayResumed "play option"
  | PlayLiked
  | PlayUnliked
  | PlayDisliked
  | SuspendEv

text \<open>A request stands for the HTTP call together with the callbacks the source binds
  to it; the arguments are the values bound into those callbacks.\<close>

datatype request =
    GetDefaultPlacement "nat option"
  | GetPlacement nat "nat option"
  | PostPlay ajax "nat option"
  | PostStart play
  | PostElapse nat nat
  | PostComplete nat
  | PostSkip play
  | PostInvalidate play "nat option"
  | PostLike nat
  | DeleteLike nat
  | PostDislike nat

text \<open>The functions handed to \<^verbatim>\<open>_.delay\<close> and \<^verbatim>\<open>_.defer\<close>. A function deferred
  by \<^verbatim>\<open>_onPlayStarted\<close> holds in its variable \<^verbatim>\<open>session\<close> what \<^verbatim>\<open>this.session\<close> was when
  \<^verbatim>\<open>_onPlayStarted\<close> ran: the Session, or null after \<^verbatim>\<open>destroy\<close>. The functions handed
  to \<^verbatim>\<open>initializeSpeaker.then\<close> are the bodies of the Player's \<^verbatim>\<open>tune\<close> and \<^verbatim>\<open>play\<close>.\<close>

datatype task =
    RequestNextPlayT nat
  | StartPlayT play
  | SendInvalidateT play
  | GetPlacementInformationT nat
  | GetDefaultPlacementInformationT nat

datatype session_ref = TheSession | Null

datatype deferred = DeferRequestInvalidate session_ref | DeferReportPlayCompleted session_ref

datatype callback = TuneCallback | PlayCallback

datatype error = Error string | TypeError

text \<open>
  Everything a handler does besides changing the state, in the order in which it does it.
  \<open>ClientIdThen d\<close> is the callback that \<^verbatim>\<open>_requestNextPlay(d)\<close> registers on the
  client-id promise, \<open>InitializeSpeakerThen cb\<close> the callback that the Player registers
  on the promise of the speaker's initialisation. \<open>Throw e\<close> is an exception leaving
  the handler: it is always the last effect, and the state returned with it is the state
  at the throw.
\<close>

datatype effect =
    Trigger event
  | Ajax request
  | Delay nat task
  | ClientIdThen "nat option"
  | Create nat string "nat option"
  | SoundPlay nat
  | SoundPause nat
  | SoundResume nat
  | SoundDestroy nat
  | Defer deferred
  | InitializeSpeakerThen callback
  | InitializeForMobile
  | Throw error

fun is_Throw :: "effect \<Rightarrow> bool" where
  "is_Throw (Throw e) = True"
| "is_Throw other = False"

definition threw :: "effect list \<Rightarrow> bool" where
  "threw os = (case rev os of [] \<Rightarrow> False | x # xs \<Rightarrow> is_Throw x)"

text \<open>\<open>after os r\<close>: the effects \<open>os\<close> happened, then the call with result \<open>r\<close>.\<close>

definition after :: "effect list \<Rightarrow> 's \<times> effect list \<Rightarrow> 's \<times> effect list" where
  "after os r = (fst r, os @ snd r)"

subsection \<open>Truthiness\<close>

definition truthy_str :: "string option \<Rightarrow> bool" where
  "truthy_str x = (case x of None \<Rightarrow> False | Some t \<Rightarrow> t \<noteq> [])"

definition truthy_num :: "nat option \<Rightarrow> bool" where
  "truthy_num x = (case x of None \<Rightarrow> False | Some n \<Rightarrow> n \<noteq> 0)"

section \<open>Session\<close>

definition new_Session :: "string option \<Rightarrow> string option \<Rightarrow> session" where
  "new_Session tok sec =
     \<lparr> token = (if truthy_str tok \<and> truthy_str sec then tok else None),
       secret = (if truthy_str tok \<and> truthy_str sec then sec else None),
       placementId = None, placement = None, stationId = None, stations = None,
       formats = ''mp3,aac'', maxBitrate = 128,
       current = None, pendingRequest = None, pendingPlay = None, allocated = 0 \<rparr>"

definition getActivePlay :: "session \<Rightarrow> play option" where
  "getActivePlay s = (case current s of Some c \<Rightarrow> Some (play c) | None \<Rightarrow> None)"

definition isTuned :: "session \<Rightarrow> bool" where
  "isTuned s = (current s \<noteq> None \<or> pendingRequest s \<noteq> None)"

definition hasActivePlayStarted :: "session \<Rightarrow> bool" where
  "hasActivePlayStarted s = (case current s of Some c \<Rightarrow> started c | None \<Rightarrow> False)"

definition maybeCanSkip :: "session \<Rightarrow> bool" where
  "maybeCanSkip s = (case current s of Some c \<Rightarrow> started c \<and> canSkip c | None \<Rightarrow> False)"

text \<open>\<^verbatim>\<open>this.config.current && (this.config.current.play === play)\<close>\<close>

definition is_current :: "play \<Rightarrow> session \<Rightarrow> bool" where
  "is_current p s = (case current s of Some c \<Rightarrow> obj (play c) = obj p | None \<Rightarrow> False)"

text \<open>\<^verbatim>\<open>this.config.pendingRequest && (this.config.pendingRequest.ajax === ajax)\<close>\<close>

definition is_pending :: "ajax \<Rightarrow> session \<Rightarrow> bool" where
  "is_pending a s =
     (case pendingRequest s of Some r \<Rightarrow> ajax_obj (ajax r) = ajax_obj a | None \<Rightarrow> False)"

definition assignCurrentPlay :: "play option \<Rightarrow> bool \<Rightarrow> session \<Rightarrow> session \<times> effect list" where
  "assignCurrentPlay p waitingIfEmpty s =
     (let os = (case current s of
                  Some c \<Rightarrow> [Trigger (PlayCompleted (play c))]
                | None \<Rightarrow> []);
          s1 = s\<lparr>current := None\<rparr>
      in case p of
           None \<Rightarrow> (if waitingIfEmpty then (s1, os) else (s1, os @ [Trigger PlaysExhausted]))
         | Some pl \<Rightarrow>
             (s1\<lparr>current := Some \<lparr>play = pl, canSkip = False, started = False, retryCount = 0\<rparr>\<rparr>,
              os @ [Trigger (PlayActive pl)]))"

definition requestNextPlay :: "nat option \<Rightarrow> session \<Rightarrow> session \<times> effect list" where
  "requestNextPlay delay s = (s, [ClientIdThen delay])"

text \<open>The callback of \<^verbatim>\<open>_requestNextPlay\<close>, run once the client id is there.\<close>

definition requestNextPlay_then :: "nat option \<Rightarrow> session \<Rightarrow> session \<times> effect list" where
  "requestNextPlay_then delay s =
     (case pendingRequest s of
        Some r \<Rightarrow>
          (if \<not> truthy_num delay then (s, [])
           else if 60000 < (case delay of Some d \<Rightarrow> d | None \<Rightarrow> 0) then
             (let s1 = s\<lparr>pendingRequest := None\<rparr>
              in if current s1 = None then assignCurrentPlay None False s1 else (s1, []))
           else
             (s\<lparr>pendingRequest := Some (r\<lparr>req_retryCount := req_retryCount r + 1\<rparr>)\<rparr>,
              [Ajax (PostPlay (ajax r) delay)]))
      | None \<Rightarrow>
          (let a = \<lparr> ajax_obj = allocated s,
                     data_formats = formats s,
                     data_max_bitrate = maxBitrate s,
                     data_placement_id = (if truthy_num (placementId s) then placementId s else None),
                     data_station_id = (if truthy_num (stationId s) then stationId s else None) \<rparr>
           in (s\<lparr>pendingRequest := Some \<lparr>ajax = a, req_retryCount = 0\<rparr>,
                  allocated := allocated s + 1\<rparr>,
               [Ajax (PostPlay a delay)])))"

definition receiveNextPlay :: "ajax \<Rightarrow> play_response \<Rightarrow> session \<Rightarrow> session \<times> effect list" where
  "receiveNextPlay a response s =
     (if is_pending a s then
        (let s1 = s\<lparr>pendingRequest := None\<rparr>
         in case response of
              PlayOk p \<Rightarrow>
                (if current s1 \<noteq> None then (s1\<lparr>pendingPlay := Some p\<rparr>, [])
                 else assignCurrentPlay (Some p) False s1)
            | PlayFailed code \<Rightarrow>
                (if code = Some 9 then
                   (if current s1 \<noteq> None then (s1\<lparr>pendingPlay := None\<rparr>, [])
                    else (s1, [Trigger PlaysExhausted]))
                 else (s1, [])))
      else (s, []))"

definition failedNextPlay ::
  "nat option \<Rightarrow> ajax \<Rightarrow> fail_response \<Rightarrow> session \<Rightarrow> session \<times> effect list" where
  "failedNextPlay delay a response s =
     (if is_pending a s then
        (if status response = 403 \<and> error_code response = Some 19 then
           (s, [Trigger (NotInUS (error_message response))])
         else
           (let d = (case delay of Some d \<Rightarrow> if d \<noteq> 0 then d * 2 else 500 | None \<Rightarrow> 500)
            in (s, [Delay d (RequestNextPlayT d)])))
      else (s, []))"

definition receiveStartPlay :: "play \<Rightarrow> start_response \<Rightarrow> session \<Rightarrow> session \<times> effect list" where
  "receiveStartPlay p response s =
     (if success response then
        (case current s of
           Some c \<Rightarrow>
             (if obj (play c) = obj p then
                after [Trigger (PlayStarted p)]
                  (requestNextPlay None
                     (s\<lparr>current := Some (c\<lparr>canSkip := can_skip response, started := True\<rparr>)\<rparr>))
              else (s, []))
         | None \<Rightarrow> (s, []))
      else (s, []))"

definition startPlay :: "play \<Rightarrow> session \<Rightarrow> session \<times> effect list" where
  "startPlay p s =
     (case current s of
        None \<Rightarrow> (s, [Throw TypeError])
      | Some c \<Rightarrow>
          (if 2 < retryCount c then
             receiveStartPlay p \<lparr>success = True, can_skip = True\<rparr> s
           else (s, [Ajax (PostStart p)])))"

definition failStartPlay :: "play \<Rightarrow> fail_response \<Rightarrow> session \<Rightarrow> session \<times> effect list" where
  "failStartPlay p response s =
     (case current s of
        Some c \<Rightarrow>
          (if obj (play c) = obj p then
             (if status response = 403 \<and> error_code response = Some 20 then
                receiveStartPlay p \<lparr>success = True, can_skip = True\<rparr> s
              else
                (s\<lparr>current := Some (c\<lparr>retryCount := retryCount c + 1\<rparr>)\<rparr>,
                 [Delay 1000 (StartPlayT p)]))
           else (s, []))
      | None \<Rightarrow> (s, []))"

definition reportPlayStarted :: "session \<Rightarrow> session \<times> effect list" where
  "reportPlayStarted s =
     (case current s of
        None \<Rightarrow>
          (s, [Throw (Error ''attempt to report a play started, but there is no active play'')])
      | Some c \<Rightarrow> startPlay (play c) s)"

definition reportPlayElapsed :: "nat \<Rightarrow> session \<Rightarrow> session \<times> effect list" where
  "reportPlayElapsed seconds s =
     (case current s of
        None \<Rightarrow>
          (s, [Throw (Error ''attempt to report elapsed play time, but the play hasn't started'')])
      | Some c \<Rightarrow> (s, [Ajax (PostElapse (play_id (play c)) seconds)]))"

definition reportPlayCompleted :: "session \<Rightarrow> session \<times> effect list" where
  "reportPlayCompleted s =
     (case current s of
        Some c \<Rightarrow>
          (if started c then (s, [Ajax (PostComplete (play_id (play c)))])
           else (s, [Throw (Error ''no active or playing song'')]))
      | None \<Rightarrow> (s, [Throw (Error ''no active or playing song'')]))"

definition receivePlayCompleted :: "session \<Rightarrow> session \<times> effect list" where
  "receivePlayCompleted s =
     (if pendingRequest s = None then
        assignCurrentPlay (pendingPlay s) False (s\<lparr>pendingPlay := None\<rparr>)
      else assignCurrentPlay None True s)"

definition requestSkip :: "session \<Rightarrow> session \<times> effect list" where
  "requestSkip s =
     (case current s of
        None \<Rightarrow> (s, [Throw (Error ''No song being played'')])
      | Some c \<Rightarrow>
          (if \<not> started c then (s, [Throw (Error ''No song has been started'')])
           else if \<not> canSkip c then (s, [Trigger SkipDenied])
           else (s, [Ajax (PostSkip (play c))])))"

definition failSkip :: "play \<Rightarrow> session \<Rightarrow> session \<times> effect list" where
  "failSkip p s = (if \<not> is_current p s then (s, []) else (s, [Trigger SkipDenied]))"

definition receiveSkip :: "play \<Rightarrow> bool \<Rightarrow> session \<Rightarrow> session \<times> effect list" where
  "receiveSkip p response_success s =
     (if \<not> is_current p s then (s, [])
      else if \<not> response_success then (s, [Trigger SkipDenied])
      else if pendingPlay s \<noteq> None then
        assignCurrentPlay (pendingPlay s) False (s\<lparr>pendingPlay := None\<rparr>)
      else if pendingRequest s \<noteq> None then assignCurrentPlay None True s
      else assignCurrentPlay None False s)"

definition sendInvalidate :: "play \<Rightarrow> nat option \<Rightarrow> session \<Rightarrow> session \<times> effect list" where
  "sendInvalidate p delay s = (s, [Ajax (PostInvalidate p delay)])"

definition requestInvalidate :: "session \<Rightarrow> session \<times> effect list" where
  "requestInvalidate s =
     (case current s of
        None \<Rightarrow> (s, [Throw (Error ''No active song to invalidate!'')])
      | Some c \<Rightarrow> sendInvalidate (play c) None s)"

definition failInvalidate :: "nat option \<Rightarrow> play \<Rightarrow> session \<Rightarrow> session \<times> effect list" where
  "failInvalidate delay p s =
     (let d = (case delay of Some d \<Rightarrow> if d \<noteq> 0 then d * 2 else 200 | None \<Rightarrow> 200)
      in if d < 3000 then (s, [Delay d (SendInvalidateT p)]) else (s, []))"

definition receiveInvalidate :: "play \<Rightarrow> bool \<Rightarrow> session \<Rightarrow> session \<times> effect list" where
  "receiveInvalidate p response_success s =
     (if \<not> is_current p s then (s, [])
      else if \<not> response_success then (s, [])
      else if pendingPlay s \<noteq> None then
        assignCurrentPlay (pendingPlay s) False (s\<lparr>pendingPlay := None\<rparr>)
      else
        (case assignCurrentPlay None True s of
           (s1, os) \<Rightarrow>
             (if pendingRequest s1 = None then after os (requestNextPlay None s1)
              else (s1, os))))"

subsection \<open>Tuning and placement information\<close>

definition getDefaultPlacementInformation :: "nat option \<Rightarrow> session \<Rightarrow> session \<times> effect list" where
  "getDefaultPlacementInformation delay s =
     (if truthy_num (placementId s) \<and>
         (case placement s of
            Some pl \<Rightarrow> Some (placement_ident pl) = placementId s
          | None \<Rightarrow> False)
      then (s, [])
      else (s, [Ajax (GetDefaultPlacement delay)]))"

definition getPlacementInformation :: "nat option \<Rightarrow> session \<Rightarrow> session \<times> effect list" where
  "getPlacementInformation delay s =
     (case placementId s of
        None \<Rightarrow> (s, [Throw (Error ''no placementId set'')])
      | Some pid \<Rightarrow>
          (if pid = 0 then (s, [Throw (Error ''no placementId set'')])
           else if (case placement s of
                      Some pl \<Rightarrow> placement_ident pl = pid
                    | None \<Rightarrow> False)
           then requestNextPlay None s
           else (s, [Ajax (GetPlacement pid delay)])))"

text \<open>\<^verbatim>\<open>!('stationId' in this.config) && (placementInformation.stations.length > 0)\<close>:
  the first station of the answer, when no station is set and there is one.\<close>

definition first_station :: "station list \<Rightarrow> session \<Rightarrow> station option" where
  "first_station sts s =
     (case stationId s of
        None \<Rightarrow> (case sts of st # rest \<Rightarrow> Some st | [] \<Rightarrow> None)
      | Some sid \<Rightarrow> None)"

definition receiveDefaultPlacementInformation ::
  "placement_information \<Rightarrow> session \<Rightarrow> session \<times> effect list" where
  "receiveDefaultPlacementInformation info s =
     (case info of
        PlacementInfo pl sts \<Rightarrow>
          (let s1 = s\<lparr>placement := Some pl, stations := Some sts,
                       placementId := Some (placement_ident pl)\<rparr>;
               o1 = [Trigger (PlacementChanged (placement_ident pl)), Trigger (PlacementEv (Some pl))]
           in case first_station sts s1 of
                Some st \<Rightarrow>
                  after (o1 @ [Trigger (StationChanged (station_ident st)),
                               Trigger (StationsEv (Some sts))])
                    (requestNextPlay None (s1\<lparr>stationId := Some (station_ident st)\<rparr>))
              | None \<Rightarrow>
                  after (o1 @ [Trigger (StationsEv (Some sts))]) (requestNextPlay None s1))
      | NoPlacementInfo \<Rightarrow> (s, []))"

definition failedDefaultPlacementInformation ::
  "nat option \<Rightarrow> fail_response \<Rightarrow> session \<Rightarrow> session \<times> effect list" where
  "failedDefaultPlacementInformation delay response s =
     (if status response = 401 \<and> error_code response = Some 5 then
        (s, [Trigger InvalidCredentials])
      else
        (let d = (case delay of Some d \<Rightarrow> if d \<noteq> 0 then d * 2 else 500 | None \<Rightarrow> 500)
         in (s, [Delay d (GetDefaultPlacementInformationT d)])))"

definition receivePlacementInformation ::
  "placement_information \<Rightarrow> session \<Rightarrow> session \<times> effect list" where
  "receivePlacementInformation info s =
     (case info of
        PlacementInfo pl sts \<Rightarrow>
          (let s1 = s\<lparr>placement := Some pl, stations := Some sts\<rparr>;
               o1 = [Trigger (PlacementEv (Some pl))]
           in case first_station sts s1 of
                Some st \<Rightarrow>
                  after (o1 @ [Trigger (StationChanged (station_ident st)),
                               Trigger (StationsEv (Some sts))])
                    (requestNextPlay None (s1\<lparr>stationId := Some (station_ident st)\<rparr>))
              | None \<Rightarrow>
                  after (o1 @ [Trigger (StationsEv (Some sts))]) (requestNextPlay None s1))
      | NoPlacementInfo \<Rightarrow> (s, []))"

definition failedPlacementInformation :: "nat option \<Rightarrow> session \<Rightarrow> session \<times> effect list" where
  "failedPlacementInformation delay s =
     (let d = (case delay of Some d \<Rightarrow> if d \<noteq> 0 then d * 2 else 500 | None \<Rightarrow> 500)
      in (s, [Delay d (GetPlacementInformationT d)]))"

definition tune :: "session \<Rightarrow> session \<times> effect list" where
  "tune s =
     (if \<not> truthy_str (token s) then
        (s, [Throw (Error ''no token set with setCredentials()'')])
      else if \<not> truthy_str (secret s) then
        (s, [Throw (Error ''no secret set with setCredentials()'')])
      else
        (case assignCurrentPlay None True (s\<lparr>pendingRequest := None, pendingPlay := None\<rparr>) of
           (s1, os) \<Rightarrow>
             (if \<not> truthy_num (placementId s1) then
                after os (getDefaultPlacementInformation None s1)
              else after os (getPlacementInformation None s1))))"

definition retune :: "session \<Rightarrow> session \<times> effect list" where
  "retune s = (if \<not> isTuned s then (s, []) else tune s)"

definition setCredentials :: "string option \<Rightarrow> string option \<Rightarrow> session \<Rightarrow> session \<times> effect list" where
  "setCredentials tok sec s = (s\<lparr>token := tok, secret := sec\<rparr>, [])"

definition setPlacementId :: "nat \<Rightarrow> session \<Rightarrow> session \<times> effect list" where
  "setPlacementId pid s =
     after [Trigger (PlacementChanged pid)] (retune (s\<lparr>placementId := Some pid\<rparr>))"

definition setStationId :: "nat \<Rightarrow> session \<Rightarrow> session \<times> effect list" where
  "setStationId sid s =
     after [Trigger (StationChanged sid)] (retune (s\<lparr>stationId := Some sid\<rparr>))"

definition setFormats :: "string \<Rightarrow> session \<Rightarrow> session \<times> effect list" where
  "setFormats f s = retune (s\<lparr>formats := f\<rparr>)"

definition setMaxBitrate :: "nat \<Rightarrow> session \<Rightarrow> session \<times> effect list" where
  "setMaxBitrate b s = (s\<lparr>maxBitrate := b\<rparr>, [])"

subsection \<open>Likes\<close>

text \<open>\<open>set_liked\<close> is the assignment to \<^verbatim>\<open>this.config.current.play.liked\<close>, made when
  the current play has the given id.\<close>

definition set_liked :: "nat \<Rightarrow> bool option \<Rightarrow> session \<Rightarrow> session" where
  "set_liked pid v s =
     (case current s of
        Some c \<Rightarrow>
          (if play_id (play c) = pid
           then s\<lparr>current := Some (c\<lparr>play := (play c)\<lparr>liked := v\<rparr>\<rparr>)\<rparr>
           else s)
      | None \<Rightarrow> s)"

definition likePlay :: "nat \<Rightarrow> session \<Rightarrow> session \<times> effect list" where
  "likePlay pid s = (set_liked pid (Some True) s, [Ajax (PostLike pid)])"

definition unlikePlay :: "nat \<Rightarrow> session \<Rightarrow> session \<times> effect list" where
  "unlikePlay pid s = (set_liked pid None s, [Ajax (DeleteLike pid)])"

definition dislikePlay :: "nat \<Rightarrow> session \<Rightarrow> session \<times> effect list" where
  "dislikePlay pid s = (set_liked pid (Some False) s, [Ajax (PostDislike pid)])"

subsection \<open>Suspend and unsuspend\<close>

text \<open>\<^verbatim>\<open>suspend\<close> changes nothing and returns the saved state. \<open>clone\<close> is the identity of
  the copy that \<^verbatim>\<open>_.clone\<close> makes of the current play.\<close>

definition suspend :: "nat \<Rightarrow> nat \<Rightarrow> session \<Rightarrow> saved" where
  "suspend startPos clone s =
     (let sv = \<lparr> saved_placementId = (if truthy_num (placementId s) then placementId s else None),
                 saved_stationId = (if truthy_num (stationId s) then stationId s else None),
                 saved_placement = None, saved_stations = None,
                 saved_play = None, saved_canSkip = False \<rparr>
      in case current s of
           Some c \<Rightarrow>
             (if started c then
                sv\<lparr> saved_placement := placement s,
                    saved_stations := stations s,
                    saved_play := Some ((play c)\<lparr>obj := clone, startPosition := Some startPos\<rparr>),
                    saved_canSkip := canSkip c \<rparr>
              else sv)
         | None \<Rightarrow> sv)"

definition unsuspend :: "saved \<Rightarrow> session \<Rightarrow> session \<times> effect list" where
  "unsuspend sv s =
     (if getActivePlay s \<noteq> None then
        (s, [Throw (Error ''You cannot unsuspend after running tune()'')])
      else
        (let (s1, o1) = (case saved_placementId sv of
                           Some pid \<Rightarrow> (s\<lparr>placementId := Some pid\<rparr>, [Trigger (PlacementChanged pid)])
                         | None \<Rightarrow> (s, []));
             (s2, o2) = (case saved_stationId sv of
                           Some sid \<Rightarrow> (s1\<lparr>stationId := Some sid\<rparr>, [Trigger (StationChanged sid)])
                         | None \<Rightarrow> (s1, []))
         in case saved_play sv of
              Some p \<Rightarrow>
                (let s3 = s2\<lparr>placement := saved_placement sv, stations := saved_stations sv\<rparr>;
                     o3 = [Trigger (PlacementEv (placement s3)), Trigger (StationsEv (stations s3))];
                     (s4, o4) = assignCurrentPlay (Some p) False s3
                 in after (o1 @ o2 @ o3 @ o4)
                      (receiveStartPlay p \<lparr>success = True, can_skip = saved_canSkip sv\<rparr> s4))
            | None \<Rightarrow> after (o1 @ o2) (tune s2)))"

subsection \<open>What reaches a Session\<close>

text \<open>
  A Session is driven by calls of its public methods, by the callbacks of the requests
  it issued, by the timers it set and by the client-id promise. \<open>session_step\<close> runs
  the handler of one of these.
\<close>

datatype session_input =
    Tune
  | SetCredentials "string option" "string option"
  | SetPlacementId nat
  | SetStationId nat
  | SetFormats string
  | SetMaxBitrate nat
  | ReportPlayStarted
  | ReportPlayElapsed nat
  | ReportPlayCompleted
  | RequestSkip
  | RequestInvalidate
  | LikePlay nat
  | UnlikePlay nat
  | DislikePlay nat
  | Unsuspend saved
  | DefaultPlacementDone placement_information
  | DefaultPlacementFail "nat option" fail_response
  | PlacementDone placement_information
  | PlacementFail "nat option"
  | NextPlayDone ajax play_response
  | NextPlayFail "nat option" ajax fail_response
  | StartDone play start_response
  | StartFail play fail_response
  | CompleteAlways
  | SkipDone play bool
  | SkipFail play
  | InvalidateDone play bool
  | InvalidateFail "nat option" play
  | Timer task
  | ClientId "nat option"

fun run_task :: "task \<Rightarrow> session \<Rightarrow> session \<times> effect list" where
  "run_task (RequestNextPlayT d) s = requestNextPlay (Some d) s"
| "run_task (StartPlayT p) s = startPlay p s"
| "run_task (SendInvalidateT p) s = sendInvalidate p None s"
| "run_task (GetPlacementInformationT d) s = getPlacementInformation (Some d) s"
| "run_task (GetDefaultPlacementInformationT d) s = getDefaultPlacementInformation (Some d) s"

fun session_step :: "session_input \<Rightarrow> session \<Rightarrow> session \<times> effect list" where
  "session_step Tune s = tune s"
| "session_step (SetCredentials tok sec) s = setCredentials tok sec s"
| "session_step (SetPlacementId pid) s = setPlacementId pid s"
| "session_step (SetStationId sid) s = setStationId sid s"
| "session_step (SetFormats f) s = setFormats f s"
| "session_step (SetMaxBitrate b) s = setMaxBitrate b s"
| "session_step ReportPlayStarted s = reportPlayStarted s"
| "session_step (ReportPlayElapsed n) s = reportPlayElapsed n s"
| "session_step ReportPlayCompleted s = reportPlayCompleted s"
| "session_step RequestSkip s = requestSkip s"
| "session_step RequestInvalidate s = requestInvalidate s"
| "session_step (LikePlay pid) s = likePlay pid s"
| "session_step (UnlikePlay pid) s = unlikePlay pid s"
| "session_step (DislikePlay pid) s = dislikePlay pid s"
| "session_step (Unsuspend sv) s = unsuspend sv s"
| "session_step (DefaultPlacementDone info) s = receiveDefaultPlacementInformation info s"
| "session_step (DefaultPlacementFail d r) s = failedDefaultPlacementInformation d r s"
| "session_step (PlacementDone info) s = receivePlacementInformation info s"
| "session_step (PlacementFail d) s = failedPlacementInformation d s"
| "session_step (NextPlayDone a r) s = receiveNextPlay a r s"
| "session_step (NextPlayFail d a r) s = failedNextPlay d a r s"
| "session_step (StartDone p r) s = receiveStartPlay p r s"
| "session_step (StartFail p r) s = failStartPlay p r s"
| "session_step CompleteAlways s = receivePlayCompleted s"
| "session_step (SkipDone p ok) s = receiveSkip p ok s"
| "session_step (SkipFail p) s = failSkip p s"
| "session_step (InvalidateDone p ok) s = receiveInvalidate p ok s"
| "session_step (InvalidateFail d p) s = failInvalidate d p s"
| "session_step (Timer t) s = run_task t s"
| "session_step (ClientId d) s = requestNextPlay_then d s"

text \<open>A run of inputs, with the effects of all of them in order.\<close>

fun session_run :: "session_input list \<Rightarrow> session \<Rightarrow> session \<times> effect list" where
  "session_run [] s = (s, [])"
| "session_run (i # is) s =
     (case session_step i s of (s1, os) \<Rightarrow> after os (session_run is s1))"

section \<open>Player\<close>

text \<open>
  \<^verbatim>\<open>this.state.activePlay\<close>: the play the Session announced, bound to the Sound created
  for it. \<open>sound\<close> is the identity of that Sound.
\<close>

record active_play =
  ap_id :: nat
  sound :: nat
  startReportedToServer :: bool
  soundCompleted :: bool
  soundCompletedWithError :: bool
  playStarted :: bool
  previousPosition :: nat

text \<open>
  A Player with the Session it created. The Session lives on in its own callbacks
  after \<^verbatim>\<open>destroy\<close> has set \<^verbatim>\<open>this.session\<close> to null; \<open>destroyed\<close> says that this
  has happened, and from then on every \<^verbatim>\<open>this.session.f()\<close> throws a TypeError. Of
  the speaker the Player keeps what it decides itself: \<open>sounds_created\<close> numbers the
  Sounds it asked \<^verbatim>\<open>speaker.create\<close> for, and \<open>live_sounds\<close> are those among them it
  has not destroyed. The volume (\<^verbatim>\<open>setMuted\<close>, \<^verbatim>\<open>isMuted\<close>) and the position and
  duration read from the Sound are left to the speaker.
\<close>

record player =
  paused :: bool
  suspended :: bool
  activePlay :: "active_play option"
  session :: session
  destroyed :: bool
  sounds_created :: nat
  live_sounds :: "nat list"

definition new_Player :: "string option \<Rightarrow> string option \<Rightarrow> player" where
  "new_Player tok sec =
     \<lparr> paused = True, suspended = False, activePlay = None,
       session = new_Session tok sec, destroyed = False,
       sounds_created = 0, live_sounds = [] \<rparr>"

text \<open>\<^verbatim>\<open>!this.state.activePlay || (this.state.activePlay.id !== playId)\<close> fails\<close>

definition bound_to :: "nat \<Rightarrow> player \<Rightarrow> bool" where
  "bound_to pid p = (case activePlay p of Some b \<Rightarrow> ap_id b = pid | None \<Rightarrow> False)"

text \<open>The value of \<^verbatim>\<open>this.session\<close>.\<close>

definition this_session :: "player \<Rightarrow> session_ref" where
  "this_session p = (if destroyed p then Null else TheSession)"

subsection \<open>Listeners on the Session's events\<close>

definition onPlayActive :: "play \<Rightarrow> player \<Rightarrow> player \<times> effect list" where
  "onPlayActive pl p =
     (let sid = sounds_created p;
          opt = (if truthy_num (startPosition pl) then startPosition pl else None)
      in (p\<lparr> sounds_created := sid + 1,
              live_sounds := live_sounds p @ [sid],
              activePlay := Some \<lparr> ap_id = play_id pl, sound = sid,
                                   startReportedToServer = False, soundCompleted = False,
                                   soundCompletedWithError = False, playStarted = False,
                                   previousPosition = 0 \<rparr> \<rparr>,
          Create sid (audio_url pl) opt # (if \<not> paused p then [SoundPlay sid] else [])))"

definition onPlayStarted :: "play \<Rightarrow> player \<Rightarrow> player \<times> effect list" where
  "onPlayStarted pl p =
     (let held = this_session p
      in case activePlay p of
           None \<Rightarrow> (p, [])
         | Some b \<Rightarrow>
             (if ap_id b \<noteq> play_id pl then (p, [])
              else
                (p\<lparr>activePlay := Some (b\<lparr>startReportedToServer := True\<rparr>)\<rparr>,
                 if soundCompleted b then
                   (if soundCompletedWithError b then [Defer (DeferRequestInvalidate held)]
                    else [Defer (DeferReportPlayCompleted held)])
                 else [])))"

definition onPlayCompleted :: "play \<Rightarrow> player \<Rightarrow> player \<times> effect list" where
  "onPlayCompleted pl p =
     (case activePlay p of
        None \<Rightarrow> (p, [])
      | Some b \<Rightarrow>
          (if ap_id b \<noteq> play_id pl then (p, [])
           else
             (p\<lparr> live_sounds := removeAll (sound b) (live_sounds p),
                 activePlay := None, paused := False \<rparr>,
              [SoundDestroy (sound b)])))"

definition onPlaysExhausted :: "player \<Rightarrow> player \<times> effect list" where
  "onPlaysExhausted p = (p\<lparr>paused := False\<rparr>, [])"

fun listener :: "event \<Rightarrow> player \<Rightarrow> player \<times> effect list" where
  "listener (PlayActive pl) p = onPlayActive pl p"
| "listener (PlayStarted pl) p = onPlayStarted pl p"
| "listener (PlayCompleted pl) p = onPlayCompleted pl p"
| "listener PlaysExhausted p = onPlaysExhausted p"
| "listener other p = (p, [])"

text \<open>
  \<^verbatim>\<open>trigger\<close> calls the listeners at once: in the effects of a Session method each
  \<open>Trigger\<close> is followed by what the Player's listener did. The listeners read and
  change the Player's own fields only. The Player also passes every event of the
  Session on to its own listeners; what those do is outside.
\<close>

fun dispatch :: "effect list \<Rightarrow> player \<Rightarrow> player \<times> effect list" where
  "dispatch [] p = (p, [])"
| "dispatch (Trigger ev # os) p =
     (case listener ev p of (p1, o1) \<Rightarrow> after (Trigger ev # o1) (dispatch os p1))"
| "dispatch (other # os) p = after [other] (dispatch os p)"

text \<open>A method of the Session runs, and the Player's listeners with it.\<close>

definition on_session :: "(session \<Rightarrow> session \<times> effect list) \<Rightarrow> player \<Rightarrow> player \<times> effect list" where
  "on_session f p = (case f (session p) of (s1, os) \<Rightarrow> dispatch os (p\<lparr>session := s1\<rparr>))"

text \<open>\<open>with_session p r\<close>: the Player reads \<^verbatim>\<open>this.session\<close> and goes on with \<open>r\<close>, or
  throws when it is null. \<open>call_session f\<close> is the call \<^verbatim>\<open>this.session.f()\<close>.\<close>

definition with_session :: "player \<Rightarrow> player \<times> effect list \<Rightarrow> player \<times> effect list" where
  "with_session p r = (if destroyed p then (p, [Throw TypeError]) else r)"

definition call_session :: "(session \<Rightarrow> session \<times> effect list) \<Rightarrow> player \<Rightarrow> player \<times> effect list" where
  "call_session f p = with_session p (on_session f p)"

subsection \<open>Handlers of the Sound's events\<close>

definition onSoundPlay :: "nat \<Rightarrow> player \<Rightarrow> player \<times> effect list" where
  "onSoundPlay playId p =
     (case activePlay p of
        None \<Rightarrow> (p, [])
      | Some b \<Rightarrow>
          (if ap_id b \<noteq> playId then (p, [])
           else
             (let p1 = p\<lparr>paused := False, activePlay := Some (b\<lparr>playStarted := True\<rparr>)\<rparr>
              in if \<not> startReportedToServer b then call_session reportPlayStarted p1
                 else with_session p1
                        (p1, [Trigger (PlayResumed (getActivePlay (session p1)))]))))"

definition onSoundPause :: "nat \<Rightarrow> player \<Rightarrow> player \<times> effect list" where
  "onSoundPause playId p =
     (if \<not> bound_to playId p then (p, [])
      else with_session (p\<lparr>paused := True\<rparr>)
             (p\<lparr>paused := True\<rparr>, [Trigger (PlayPaused (getActivePlay (session p)))]))"

definition onSoundFinish :: "nat \<Rightarrow> bool \<Rightarrow> player \<Rightarrow> player \<times> effect list" where
  "onSoundFinish playId withError p =
     (case activePlay p of
        None \<Rightarrow> (p, [])
      | Some b \<Rightarrow>
          (if ap_id b \<noteq> playId then (p, [])
           else
             (let p1 = p\<lparr>activePlay := Some (b\<lparr> soundCompleted := True,
                              soundCompletedWithError :=
                                (if withError then True else soundCompletedWithError b) \<rparr>)\<rparr>
              in if \<not> playStarted b then call_session requestInvalidate p1
                 else if \<not> startReportedToServer b then (p1, [])
                 else if withError then call_session requestInvalidate p1
                 else call_session reportPlayCompleted p1)))"

text \<open>\<open>position\<close> is what \<^verbatim>\<open>sound.position()\<close> returns when the event is handled.\<close>

definition onSoundElapse :: "nat \<Rightarrow> nat \<Rightarrow> player \<Rightarrow> player \<times> effect list" where
  "onSoundElapse playId position p =
     (case activePlay p of
        None \<Rightarrow> (p, [])
      | Some b \<Rightarrow>
          (if ap_id b \<noteq> playId then (p, [])
           else
             (let interval = 30 * 1000;
                  previousCount = previousPosition b div interval;
                  currentCount = position div interval;
                  p1 = p\<lparr>activePlay := Some (b\<lparr>previousPosition := position\<rparr>)\<rparr>
              in if currentCount \<noteq> previousCount
                 then call_session (reportPlayElapsed (position div 1000)) p1
                 else (p1, []))))"

subsection \<open>Public methods\<close>

definition isPaused :: "player \<Rightarrow> error + bool" where
  "isPaused p = (if destroyed p then Inl TypeError else Inr (isTuned (session p) \<and> paused p))"

text \<open>\<^verbatim>\<open>tune\<close> and \<^verbatim>\<open>play\<close> register a callback on the promise of the speaker's
  initialisation and return: \<open>tune_when_ready\<close> and \<open>play_when_ready\<close>. The callbacks
  are \<open>player_tune\<close> and \<open>player_play\<close>; they run when the promise lets them, after the
  speaker has reported its formats to the Session.\<close>

definition tune_when_ready :: "player \<Rightarrow> player \<times> effect list" where
  "tune_when_ready p = (p, [InitializeSpeakerThen TuneCallback])"

definition play_when_ready :: "player \<Rightarrow> player \<times> effect list" where
  "play_when_ready p = (p, [InitializeSpeakerThen PlayCallback])"

definition player_tune :: "player \<Rightarrow> player \<times> effect list" where
  "player_tune p =
     with_session p (if \<not> isTuned (session p) then call_session tune p else (p, []))"

definition player_play :: "player \<Rightarrow> player \<times> effect list" where
  "player_play p =
     after [InitializeForMobile]
       (with_session p
          (if \<not> isTuned (session p) then call_session tune (p\<lparr>paused := False\<rparr>)
           else
             (case activePlay p of
                Some b \<Rightarrow>
                  (if getActivePlay (session p) \<noteq> None \<and> paused p then
                     (if playStarted b then (p, [SoundResume (sound b)])
                      else (p, [SoundPlay (sound b)]))
                   else (p, []))
              | None \<Rightarrow> (p, []))))"

definition player_pause :: "player \<Rightarrow> player \<times> effect list" where
  "player_pause p =
     with_session p
       (if \<not> hasActivePlayStarted (session p) \<or> activePlay p = None \<or> paused p then (p, [])
        else
          (case activePlay p of
             Some b \<Rightarrow> (p, [SoundPause (sound b)])
           | None \<Rightarrow> (p, [])))"

definition player_skip :: "player \<Rightarrow> player \<times> effect list" where
  "player_skip p =
     with_session p
       (if \<not> hasActivePlayStarted (session p) then (p, []) else call_session requestSkip p)"

definition player_like :: "player \<Rightarrow> player \<times> effect list" where
  "player_like p =
     with_session p
       (if \<not> hasActivePlayStarted (session p) then (p, [])
        else
          (case activePlay p of
             None \<Rightarrow> (p, [Throw TypeError])
           | Some b \<Rightarrow>
               (case call_session (likePlay (ap_id b)) p of
                  (p1, os) \<Rightarrow> (p1, os @ [Trigger PlayLiked]))))"

definition player_unlike :: "player \<Rightarrow> player \<times> effect list" where
  "player_unlike p =
     with_session p
       (if \<not> hasActivePlayStarted (session p) then (p, [])
        else
          (case activePlay p of
             None \<Rightarrow> (p, [Throw TypeError])
           | Some b \<Rightarrow>
               (case call_session (unlikePlay (ap_id b)) p of
                  (p1, os) \<Rightarrow> (p1, os @ [Trigger PlayUnliked]))))"

definition player_dislike :: "player \<Rightarrow> player \<times> effect list" where
  "player_dislike p =
     with_session p
       (if \<not> hasActivePlayStarted (session p) then (p, [])
        else
          (case activePlay p of
             None \<Rightarrow> (p, [Throw TypeError])
           | Some b \<Rightarrow>
               (case call_session (dislikePlay (ap_id b)) p of
                  (p1, os) \<Rightarrow> after (os @ [Trigger PlayDisliked]) (player_skip p1))))"

text \<open>\<^verbatim>\<open>suspend\<close> returns \<open>player_suspend_saved\<close> and leaves the Player as
  \<open>player_suspend\<close> says; \<open>position\<close> is what \<^verbatim>\<open>sound.position()\<close> returns.\<close>

definition player_suspend_saved :: "nat \<Rightarrow> nat \<Rightarrow> player \<Rightarrow> error + saved" where
  "player_suspend_saved position clone p =
     (if destroyed p then Inl TypeError
      else Inr (suspend (if activePlay p \<noteq> None then position else 0) clone (session p)))"

definition player_suspend :: "player \<Rightarrow> player \<times> effect list" where
  "player_suspend p =
     with_session p
       (case player_pause p of
          (p1, os) \<Rightarrow> (p1\<lparr>suspended := True\<rparr>, os @ [Trigger SuspendEv]))"

definition player_unsuspend :: "saved \<Rightarrow> bool \<Rightarrow> player \<Rightarrow> player \<times> effect list" where
  "player_unsuspend sv startPlayback p =
     (case call_session (unsuspend sv) p of
        (p1, os) \<Rightarrow>
          (if threw os then (p1, os)
           else if startPlayback then after os (play_when_ready p1)
           else (p1, os)))"

datatype player_state = Suspended | Idle | Paused | Playing

definition getCurrentState :: "player \<Rightarrow> error + player_state" where
  "getCurrentState p =
     (if suspended p then Inr Suspended
      else if destroyed p then Inl TypeError
      else if \<not> hasActivePlayStarted (session p) then Inr Idle
      else if paused p then Inr Paused
      else Inr Playing)"

definition player_destroy :: "player \<Rightarrow> player \<times> effect list" where
  "player_destroy p =
     (case activePlay p of
        Some b \<Rightarrow>
          (p\<lparr>destroyed := True, live_sounds := removeAll (sound b) (live_sounds p)\<rparr>,
           [SoundDestroy (sound b)])
      | None \<Rightarrow> (p\<lparr>destroyed := True\<rparr>, []))"

text \<open>The functions deferred by \<^verbatim>\<open>_onPlayStarted\<close> call \<^verbatim>\<open>session.requestInvalidate()\<close>
  and \<^verbatim>\<open>session.reportPlayCompleted()\<close> on the value they hold: a later \<^verbatim>\<open>destroy\<close> does
  not reach it, and a null held from the start throws.\<close>

fun on_ref :: "session_ref \<Rightarrow> (session \<Rightarrow> session \<times> effect list) \<Rightarrow> player
                 \<Rightarrow> player \<times> effect list" where
  "on_ref TheSession f p = on_session f p"
| "on_ref Null f p = (p, [Throw TypeError])"

fun run_deferred :: "deferred \<Rightarrow> player \<Rightarrow> player \<times> effect list" where
  "run_deferred (DeferRequestInvalidate held) p = on_ref held requestInvalidate p"
| "run_deferred (DeferReportPlayCompleted held) p = on_ref held reportPlayCompleted p"

subsection \<open>What reaches a Player\<close>

text \<open>
  Everything that reaches the Session (its listeners run inside), the events of the
  Sounds, the Player's public methods that act on the play, and the functions it
  deferred. \<open>PlayerTune\<close> and \<open>PlayerPlay\<close> are the callbacks of \<^verbatim>\<open>tune\<close> and \<^verbatim>\<open>play\<close>,
  run by the promise they were registered on.
\<close>

datatype player_input =
    ToSession session_input
  | SoundPlayEv nat
  | SoundPauseEv nat
  | SoundFinishEv nat bool
  | SoundElapseEv nat nat
  | PlayerTune
  | PlayerPlay
  | PlayerPause
  | PlayerSkip
  | PlayerLike
  | PlayerUnlike
  | PlayerDislike
  | PlayerSuspend
  | PlayerUnsuspend saved bool
  | PlayerDestroy
  | Deferred deferred

fun player_step :: "player_input \<Rightarrow> player \<Rightarrow> player \<times> effect list" where
  "player_step (ToSession i) p = on_session (session_step i) p"
| "player_step (SoundPlayEv pid) p = onSoundPlay pid p"
| "player_step (SoundPauseEv pid) p = onSoundPause pid p"
| "player_step (SoundFinishEv pid withError) p = onSoundFinish pid withError p"
| "player_step (SoundElapseEv pid pos) p = onSoundElapse pid pos p"
| "player_step PlayerTune p = player_tune p"
| "player_step PlayerPlay p = player_play p"
| "player_step PlayerPause p = player_pause p"
| "player_step PlayerSkip p = player_skip p"
| "player_step PlayerLike p = player_like p"
| "player_step PlayerUnlike p = player_unlike p"
| "player_step PlayerDislike p = player_dislike p"
| "player_step PlayerSuspend p = player_suspend p"
| "player_step (PlayerUnsuspend sv b) p = player_unsuspend sv b p"
| "player_step PlayerDestroy p = player_destroy p"
| "player_step (Deferred d) p = run_deferred d p"

fun player_run :: "player_input list \<Rightarrow> player \<Rightarrow> player \<times> effect list" where
  "player_run [] p = (p, [])"
| "player_run (i # is) p =
     (case player_step i p of (p1, os) \<Rightarrow> after os (player_run is p1))"

section \<open>Observing a run\<close>

subsection \<open>The play that is active\<close>

text \<open>
  A play is told apart by its identity and its id. \<open>current_key\<close> is the play the
  Session holds as current, if any.
\<close>

definition play_key :: "play \<Rightarrow> nat \<times> nat" where
  "play_key p = (obj p, play_id p)"

definition current_key :: "session \<Rightarrow> (nat \<times> nat) option" where
  "current_key s = (case current s of Some c \<Rightarrow> Some (play_key (play c)) | None \<Rightarrow> None)"

text \<open>
  \<open>track a os\<close> reads the effects \<open>os\<close> as an observer of the Session's events does,
  starting with the play \<open>a\<close> active (or none). A \<^verbatim>\<open>play-active\<close> is accepted only
  while no play is active, a \<^verbatim>\<open>play-completed\<close> only for the play that is active;
  anything else in the stream is \<open>None\<close>. The result is the play active at the end.
\<close>

fun track :: "(nat \<times> nat) option \<Rightarrow> effect list \<Rightarrow> (nat \<times> nat) option option" where
  "track a [] = Some a"
| "track a (Trigger (PlayActive p) # os) =
     (case a of None \<Rightarrow> track (Some (play_key p)) os | Some k \<Rightarrow> None)"
| "track a (Trigger (PlayCompleted p) # os) =
     (case a of Some k \<Rightarrow> if k = play_key p then track None os else None | None \<Rightarrow> None)"
| "track a (other # os) = track a os"

text \<open>
  \<open>linked a p\<close>: the Player \<open>p\<close> has a binding exactly when a play \<open>a\<close> is active, the
  binding carries that play's id, and the only live Sound is the binding's; a Player
  that has been destroyed may have destroyed that Sound and kept the binding.
\<close>

definition linked :: "(nat \<times> nat) option \<Rightarrow> player \<Rightarrow> bool" where
  "linked a p =
     (case (a, activePlay p) of
        (None, None) \<Rightarrow> live_sounds p = []
      | (Some k, Some b) \<Rightarrow>
          ap_id b = snd k \<and>
          (live_sounds p = [sound b] \<or> (destroyed p \<and> live_sounds p = []))
      | other \<Rightarrow> False)"

definition coupled :: "player \<Rightarrow> bool" where
  "coupled p = linked (current_key (session p)) p"

text \<open>
  \<open>promoted q i s\<close>: the input \<open>i\<close> takes the pending play \<open>q\<close> of the Session \<open>s\<close>
  out of its place and makes it the current play, which it was not. \<open>retiring\<close> are the
  inputs that retire a play: the answer to a completion, and the successful answers to
  a skip and to an invalidation.
\<close>

definition promoted :: "play \<Rightarrow> session_input \<Rightarrow> session \<Rightarrow> bool" where
  "promoted q i s =
     (pendingPlay s = Some q \<and> current_key s \<noteq> Some (play_key q) \<and>
      pendingPlay (fst (session_step i s)) = None \<and>
      current_key (fst (session_step i s)) = Some (play_key q))"

fun retiring :: "session_input \<Rightarrow> bool" where
  "retiring CompleteAlways = True"
| "retiring (SkipDone p ok) = ok"
| "retiring (InvalidateDone p ok) = ok"
| "retiring other = False"

text \<open>What the proofs carry along: a Session method has a well-formed event stream, a
  Player handler keeps \<open>coupled\<close>, two Players agree on what \<open>linked\<close> reads.\<close>

definition tracks :: "(session \<Rightarrow> session \<times> effect list) \<Rightarrow> bool" where
  "tracks f = (\<forall>s. track (current_key s) (snd (f s)) = Some (current_key (fst (f s))))"

definition preserves :: "(player \<Rightarrow> player \<times> effect list) \<Rightarrow> bool" where
  "preserves h =
     (\<forall>p. coupled p \<longrightarrow>
        coupled (fst (h p)) \<and>
        track (current_key (session p)) (snd (h p)) = Some (current_key (session (fst (h p)))))"

definition same_link :: "player \<Rightarrow> player \<Rightarrow> bool" where
  "same_link p q =
     (session q = session p \<and> destroyed q = destroyed p \<and> live_sounds q = live_sounds p \<and>
      map_option (\<lambda>b. (ap_id b, sound b)) (activePlay q) =
        map_option (\<lambda>b. (ap_id b, sound b)) (activePlay p))"

subsection \<open>A service whose next-play requests all fail\<close>

text \<open>
  \<open>drive n r is s\<close> feeds the Session the inputs \<open>is\<close> and, after each, what its effects
  lead to: every timer it set fires, the client id is there, and every next-play request
  it sent fails with \<open>r\<close>. It stops after \<open>n\<close> inputs or when nothing is left to happen,
  and returns the state, the effects and the inputs still to come.
\<close>

fun react :: "fail_response \<Rightarrow> effect \<Rightarrow> session_input list" where
  "react r (Delay d t) = [Timer t]"
| "react r (ClientIdThen d) = [ClientId d]"
| "react r (Ajax (PostPlay a d)) = [NextPlayFail d a r]"
| "react r other = []"

fun drive :: "nat \<Rightarrow> fail_response \<Rightarrow> session_input list \<Rightarrow> session
                \<Rightarrow> session \<times> effect list \<times> session_input list" where
  "drive 0 r is s = (s, [], is)"
| "drive (Suc n) r [] s = (s, [], [])"
| "drive (Suc n) r (i # is) s =
     (case session_step i s of
        (s1, os) \<Rightarrow>
          (case drive n r (is @ concat (map (react r) os)) s1 of
             (s2, os2, rest) \<Rightarrow> (s2, os @ os2, rest)))"

subsection \<open>Reporting boundaries\<close>

text \<open>The positions of a sequence at which a 30-second boundary has been crossed since
  the position before: \<^verbatim>\<open>floor(prev/30000) != floor(cur/30000)\<close>.\<close>

fun crossings :: "nat \<Rightarrow> nat list \<Rightarrow> nat list" where
  "crossings prev [] = []"
| "crossings prev (x # xs) =
     (if prev div 30000 \<noteq> x div 30000 then x # crossings x xs else crossings x xs)"

subsection \<open>A listener\<close>

text \<open>A Player with credentials, two plays of the service, and the inputs that bring the
  Player to where a placement is known and the first play is requested, to where that
  play sounds but its start is not acknowledged, and to where it is acknowledged and
  the next play is waiting.\<close>

definition play_A :: play where
  "play_A = \<lparr>obj = 1, play_id = 101, audio_url = ''a.mp3'', startPosition = None, liked = None\<rparr>"

definition play_B :: play where
  "play_B = \<lparr>obj = 2, play_id = 102, audio_url = ''b.mp3'', startPosition = None, liked = None\<rparr>"

definition request :: "nat \<Rightarrow> ajax" where
  "request n = \<lparr>ajax_obj = n, data_formats = ''mp3,aac'', data_max_bitrate = 128,
                 data_placement_id = Some 5, data_station_id = Some 9\<rparr>"

definition placement_5 :: placement_information where
  "placement_5 = PlacementInfo \<lparr>placement_ident = 5\<rparr> [\<lparr>station_ident = 9\<rparr>]"

definition server_error :: fail_response where
  "server_error = \<lparr>status = 500, error_code = None, error_message = []\<rparr>"

definition listener0 :: player where
  "listener0 = new_Player (Some ''token'') (Some ''secret'')"

definition tuned :: "player_input list" where
  "tuned =
     [PlayerPlay,
      ToSession (DefaultPlacementDone placement_5),
      ToSession (ClientId None)]"

definition unacknowledged :: "player_input list" where
  "unacknowledged =
     tuned @
     [ToSession (NextPlayDone (request 0) (PlayOk play_A)),
      SoundPlayEv 101]"

definition playing :: "player_input list" where
  "playing =
     unacknowledged @
     [ToSession (StartDone play_A \<lparr>success = True, can_skip = True\<rparr>),
      ToSession (ClientId None),
      ToSession (NextPlayDone (request 1) (PlayOk play_B))]"

definition after_run :: "player_input list \<Rightarrow> player" where
  "after_run is = fst (player_run is listener0)"

text \<open>The listener presses play twice before the placement is known, so two placement
  requests are out. The answer to the second arrives after the first play has begun to
  sound, and asks for a play of its own, which is queued; the acknowledged start asks
  for one more. The first play then ends with that request still out.\<close>

definition double_click :: "player_input list" where
  "double_click =
     [PlayerPlay, PlayerPlay,
      ToSession (DefaultPlacementDone placement_5),
      ToSession (ClientId None),
      ToSession (NextPlayDone (request 0) (PlayOk play_A)),
      SoundPlayEv 101,
      ToSession (DefaultPlacementDone placement_5),
      ToSession (ClientId None),
      ToSession (NextPlayDone (request 1) (PlayOk play_B)),
      ToSession (StartDone play_A \<lparr>success = True, can_skip = True\<rparr>),
      ToSession (ClientId None),
      SoundFinishEv 101 False]"

definition already_started :: fail_response where
  "already_started = \<lparr>status = 403, error_code = Some 20, error_message = []\<rparr>"

subsection \<open>The events of a restored identity\<close>

text \<open>What \<^verbatim>\<open>unsuspend\<close> emits for the placement id and the station id that
  \<^verbatim>\<open>suspend\<close> saved from a Session: each is saved when truthy.\<close>

definition identity_events :: "session \<Rightarrow> effect list" where
  "identity_events s =
     (case placementId s of
        Some n \<Rightarrow> if n \<noteq> 0 then [Trigger (PlacementChanged n)] else []
      | None \<Rightarrow> []) @
     (case stationId s of
        Some n \<Rightarrow> if n \<noteq> 0 then [Trigger (StationChanged n)] else []
      | None \<Rightarrow> [])"

section \<open>The event stream of a Session method\<close>

lemma track_append:
  "track a (xs @ ys) = (case track a xs of Some b \<Rightarrow> track b ys | None \<Rightarrow> None)"
  by (induction a xs rule: track.induct) (simp_all split: option.splits)

lemma tracks_assignCurrentPlay: "tracks (assignCurrentPlay p w)"
  by (simp add: tracks_def assignCurrentPlay_def current_key_def Let_def track_append
      split: option.splits)

lemma tracksD: "tracks f \<Longrightarrow> f s = (s', os) \<Longrightarrow> track (current_key s) os = Some (current_key s')"
  by (auto simp: tracks_def dest: spec [of _ s])


lemma track_quiet [simp]:
  "track a [Trigger PlaysExhausted] = Some a"
  by simp

lemma tracks_receiveStartPlay: "tracks (receiveStartPlay p r)"
  by (simp add: tracks_def receiveStartPlay_def current_key_def requestNextPlay_def after_def
      split: option.splits)

lemma tracks_startPlay: "tracks (startPlay p)"
  using tracks_receiveStartPlay [of p "\<lparr>success = True, can_skip = True\<rparr>"]
  by (simp add: tracks_def startPlay_def split: option.splits)

lemma tracks_tune: "tracks tune"
  apply (simp add: tracks_def tune_def)
  apply (auto simp: assignCurrentPlay_def current_key_def Let_def track_append after_def
      getDefaultPlacementInformation_def getPlacementInformation_def requestNextPlay_def
      split: option.splits)
  done

lemma tracks_retune: "tracks retune"
  using tracks_tune by (simp add: tracks_def retune_def)

lemma current_key_set_liked: "current_key (set_liked pid v s) = current_key s"
  by (simp add: set_liked_def current_key_def play_key_def split: option.splits)

lemma tracks_unsuspend: "tracks (unsuspend sv)"
proof -
  have "track (current_key s) (snd (unsuspend sv s)) = Some (current_key (fst (unsuspend sv s)))" for s
  proof (cases "saved_play sv")
    case None
    have t: "track (current_key s') (snd (tune s')) = Some (current_key (fst (tune s')))" for s'
      using tracks_tune by (simp add: tracks_def)
    show ?thesis
      using None t [of "s\<lparr>placementId := saved_placementId sv\<rparr>"]
        t [of "s\<lparr>stationId := saved_stationId sv\<rparr>"]
        t [of "s\<lparr>placementId := saved_placementId sv, stationId := saved_stationId sv\<rparr>"]
        t [of s]
      by (auto simp: unsuspend_def getActivePlay_def after_def current_key_def track_append
          split: option.splits)
  next
    case (Some p)
    then show ?thesis
      by (auto simp: unsuspend_def getActivePlay_def after_def current_key_def track_append
          assignCurrentPlay_def receiveStartPlay_def requestNextPlay_def Let_def
          split: option.splits)
  qed
  then show ?thesis by (simp add: tracks_def)
qed

lemma current_key_frame [simp]:
  "current_key (s\<lparr>placementId := a\<rparr>) = current_key s"
  "current_key (s\<lparr>stationId := b\<rparr>) = current_key s"
  "current_key (s\<lparr>formats := c\<rparr>) = current_key s"
  by (simp_all add: current_key_def)

lemma tracks_at:
  assumes "tracks f" and "current g = current s"
  shows "track (current_key s) (snd (f g)) = Some (current_key (fst (f g)))"
proof -
  have "current_key g = current_key s"
    using assms(2) by (simp add: current_key_def)
  then show ?thesis
    using assms(1) by (auto simp: tracks_def dest: spec [of _ g])
qed

lemma tracks_failStartPlay: "tracks (failStartPlay p r)"
  unfolding tracks_def
proof
  fix s
  show "track (current_key s) (snd (failStartPlay p r s)) =
          Some (current_key (fst (failStartPlay p r s)))"
  proof (cases "is_current p s \<and> status r = 403 \<and> error_code r = Some 20")
    case True
    then have "failStartPlay p r s = receiveStartPlay p \<lparr>success = True, can_skip = True\<rparr> s"
      by (simp add: failStartPlay_def is_current_def split: option.splits)
    then show ?thesis
      by (simp add: tracks_at [OF tracks_receiveStartPlay])
  next
    case False
    then show ?thesis
      by (auto simp: failStartPlay_def is_current_def current_key_def split: option.splits)
  qed
qed

lemma tracks_session_step: "tracks (session_step i)"
proof (cases i)
  case Tune
  then show ?thesis using tracks_tune by (simp add: tracks_def)
next
  case (SetCredentials a b)
  then show ?thesis by (simp add: tracks_def setCredentials_def current_key_def)
next
  case (SetPlacementId x)
  then show ?thesis
    by (simp add: tracks_def setPlacementId_def after_def tracks_at [OF tracks_retune])
next
  case (SetStationId x)
  then show ?thesis
    by (simp add: tracks_def setStationId_def after_def tracks_at [OF tracks_retune])
next
  case (SetFormats x)
  then show ?thesis
    by (simp add: tracks_def setFormats_def after_def tracks_at [OF tracks_retune])
next
  case (SetMaxBitrate x)
  then show ?thesis by (simp add: tracks_def setMaxBitrate_def current_key_def)
next
  case ReportPlayStarted
  then show ?thesis using tracks_startPlay
    by (simp add: tracks_def reportPlayStarted_def split: option.splits)
next
  case (ReportPlayElapsed x)
  then show ?thesis by (simp add: tracks_def reportPlayElapsed_def split: option.splits)
next
  case ReportPlayCompleted
  then show ?thesis by (simp add: tracks_def reportPlayCompleted_def split: option.splits)
next
  case RequestSkip
  then show ?thesis by (simp add: tracks_def requestSkip_def split: option.splits)
next
  case RequestInvalidate
  then show ?thesis
    by (simp add: tracks_def requestInvalidate_def sendInvalidate_def split: option.splits)
next
  case (LikePlay x)
  then show ?thesis by (simp add: tracks_def likePlay_def current_key_set_liked)
next
  case (UnlikePlay x)
  then show ?thesis by (simp add: tracks_def unlikePlay_def current_key_set_liked)
next
  case (DislikePlay x)
  then show ?thesis by (simp add: tracks_def dislikePlay_def current_key_set_liked)
next
  case (Unsuspend x)
  then show ?thesis using tracks_unsuspend by (simp add: tracks_def)
next
  case (DefaultPlacementDone x)
  then show ?thesis
    by (simp add: tracks_def receiveDefaultPlacementInformation_def after_def Let_def
        requestNextPlay_def current_key_def
        split: placement_information.splits option.splits)
next
  case (DefaultPlacementFail d r)
  then show ?thesis
    by (simp add: tracks_def failedDefaultPlacementInformation_def Let_def)
next
  case (PlacementDone x)
  then show ?thesis
    by (simp add: tracks_def receivePlacementInformation_def after_def Let_def
        requestNextPlay_def current_key_def
        split: placement_information.splits option.splits)
next
  case (PlacementFail x)
  then show ?thesis by (simp add: tracks_def failedPlacementInformation_def Let_def)
next
  case (NextPlayDone a r)
  then show ?thesis
    by (auto simp: tracks_def receiveNextPlay_def assignCurrentPlay_def current_key_def Let_def
        split: play_response.splits option.splits)
next
  case (NextPlayFail d a r)
  then show ?thesis by (simp add: tracks_def failedNextPlay_def Let_def)
next
  case (StartDone p r)
  then show ?thesis using tracks_receiveStartPlay by (simp add: tracks_def)
next
  case (StartFail p r)
  then show ?thesis using tracks_failStartPlay by (simp add: tracks_def)
next
  case CompleteAlways
  then show ?thesis
    by (auto simp: tracks_def receivePlayCompleted_def assignCurrentPlay_def current_key_def
        Let_def split: option.splits)
next
  case (SkipDone p ok)
  then show ?thesis
    by (auto simp: tracks_def receiveSkip_def assignCurrentPlay_def current_key_def
        Let_def split: option.splits)
next
  case (SkipFail p)
  then show ?thesis by (simp add: tracks_def failSkip_def)
next
  case (InvalidateDone p ok)
  then show ?thesis
    by (auto simp: tracks_def receiveInvalidate_def assignCurrentPlay_def current_key_def
        requestNextPlay_def after_def Let_def split: option.splits)
next
  case (InvalidateFail d p)
  then show ?thesis by (simp add: tracks_def failInvalidate_def Let_def)
next
  case (Timer t)
  then show ?thesis using tracks_startPlay
    by (cases t)
      (simp_all add: tracks_def requestNextPlay_def sendInvalidate_def
        getPlacementInformation_def getDefaultPlacementInformation_def split: option.splits)
next
  case (ClientId d)
  then show ?thesis
    by (auto simp: tracks_def requestNextPlay_then_def assignCurrentPlay_def current_key_def
        Let_def split: option.splits)
qed

section \<open>The Player follows the Session\<close>

lemma listener_linked:
  assumes "track a [Trigger ev] = Some a'" and "linked a p"
  shows "linked a' (fst (listener ev p)) \<and> track a' (snd (listener ev p)) = Some a'
         \<and> session (fst (listener ev p)) = session p"
proof (cases ev)
  case (PlayActive pl)
  then show ?thesis using assms
    by (auto simp: linked_def onPlayActive_def play_key_def Let_def split: option.splits)
next
  case (PlayStarted pl)
  then show ?thesis using assms
    by (auto simp: linked_def onPlayStarted_def Let_def split: option.splits)
next
  case (PlayCompleted pl)
  then show ?thesis using assms
    by (auto simp: linked_def onPlayCompleted_def play_key_def split: option.splits if_splits)
next
  case PlaysExhausted
  then show ?thesis using assms
    by (auto simp: linked_def onPlaysExhausted_def split: option.splits)
qed (use assms in simp_all)

lemma dispatch_other:
  "(\<forall>ev. e \<noteq> Trigger ev) \<Longrightarrow> dispatch (e # os) p = after [e] (dispatch os p)"
  by (cases e) simp_all

lemma track_other:
  "(\<forall>ev. e \<noteq> Trigger ev) \<Longrightarrow> track a (e # os) = track a os"
  by (cases e) simp_all

lemma dispatch_linked:
  "track a os = Some a' \<Longrightarrow> linked a p \<Longrightarrow>
     linked a' (fst (dispatch os p)) \<and> track a (snd (dispatch os p)) = Some a'
     \<and> session (fst (dispatch os p)) = session p"
proof (induction os arbitrary: a p)
  case Nil
  then show ?case by simp
next
  case (Cons e os)
  show ?case
  proof (cases "\<exists>ev. e = Trigger ev")
    case True
    then obtain ev where Trigger: "e = Trigger ev" by blast
    obtain b where b: "track a [Trigger ev] = Some b" and rest: "track b os = Some a'"
      using Cons.prems(1) Trigger track_append [of a "[Trigger ev]" os]
      by (auto split: option.splits)
    let ?p1 = "fst (listener ev p)"
    have l: "linked b ?p1" "track b (snd (listener ev p)) = Some b" "session ?p1 = session p"
      using listener_linked [OF b Cons.prems(2)] by simp_all
    have ih: "linked a' (fst (dispatch os ?p1))" "track b (snd (dispatch os ?p1)) = Some a'"
      "session (fst (dispatch os ?p1)) = session ?p1"
      using Cons.IH [OF rest l(1)] by simp_all
    have out: "track a (Trigger ev # snd (listener ev p) @ snd (dispatch os ?p1)) = Some a'"
      using b l(2) ih(2) track_append [of a "[Trigger ev]" "snd (listener ev p) @ snd (dispatch os ?p1)"]
        track_append [of b "snd (listener ev p)" "snd (dispatch os ?p1)"]
      by simp
    show ?thesis
      using Trigger ih l(3) out by (simp add: after_def case_prod_beta)
  next
    case False
    then have o: "\<forall>ev. e \<noteq> Trigger ev" by blast
    have "track a os = Some a'"
      using Cons.prems(1) track_other [OF o] by simp
    from Cons.IH [OF this Cons.prems(2)] show ?thesis
      by (simp add: dispatch_other [OF o] track_other [OF o] after_def)
  qed
qed

lemma linked_frame:
  "activePlay q = activePlay p \<Longrightarrow> live_sounds q = live_sounds p \<Longrightarrow>
   destroyed q = destroyed p \<Longrightarrow> linked a q = linked a p"
  by (simp add: linked_def split: option.splits)

lemma on_session_linked:
  assumes "tracks f" and "linked (current_key (session p)) p"
  shows "coupled (fst (on_session f p))
       \<and> track (current_key (session p)) (snd (on_session f p)) =
           Some (current_key (session (fst (on_session f p))))"
proof -
  obtain s1 os where f: "f (session p) = (s1, os)" by (cases "f (session p)")
  have t: "track (current_key (session p)) os = Some (current_key s1)"
    using tracksD [OF assms(1) f] .
  have l: "linked (current_key (session p)) (p\<lparr>session := s1\<rparr>)"
    using assms(2) linked_frame [of "p\<lparr>session := s1\<rparr>" p] by simp
  show ?thesis
    using dispatch_linked [OF t l] f by (simp add: on_session_def coupled_def)
qed

lemma call_session_linked:
  assumes "tracks f" and "linked (current_key (session p)) p"
  shows "coupled (fst (call_session f p))
       \<and> track (current_key (session p)) (snd (call_session f p)) =
           Some (current_key (session (fst (call_session f p))))"
  using on_session_linked [OF assms] assms(2)
  by (simp add: call_session_def with_session_def coupled_def)

lemma same_link_linked: "same_link p q \<Longrightarrow> linked a q = linked a p"
  by (auto simp: same_link_def linked_def split: option.splits)

lemma same_link_coupled: "same_link p q \<Longrightarrow> coupled p \<Longrightarrow> coupled q"
  using same_link_linked [of p q] by (simp add: coupled_def same_link_def)

lemma call_session_same_link:
  assumes "tracks f" and "coupled p" and "same_link p q"
  shows "coupled (fst (call_session f q))
       \<and> track (current_key (session p)) (snd (call_session f q)) =
           Some (current_key (session (fst (call_session f q))))"
proof -
  have "session q = session p" using assms(3) by (simp add: same_link_def)
  moreover have "linked (current_key (session q)) q"
    using same_link_coupled [OF assms(3) assms(2)] by (simp add: coupled_def)
  ultimately show ?thesis
    using call_session_linked [OF assms(1), of q] by simp
qed

lemma on_session_same_link:
  assumes "tracks f" and "coupled p" and "same_link p q"
  shows "coupled (fst (on_session f q))
       \<and> track (current_key (session p)) (snd (on_session f q)) =
           Some (current_key (session (fst (on_session f q))))"
proof -
  have "session q = session p" using assms(3) by (simp add: same_link_def)
  moreover have "linked (current_key (session q)) q"
    using same_link_coupled [OF assms(3) assms(2)] by (simp add: coupled_def)
  ultimately show ?thesis
    using on_session_linked [OF assms(1), of q] by simp
qed

lemma tracks_fns:
  "tracks reportPlayStarted" "tracks reportPlayCompleted" "tracks requestInvalidate"
  "tracks (reportPlayElapsed n)" "tracks requestSkip" "tracks (likePlay pid)"
  "tracks (unlikePlay pid)" "tracks (dislikePlay pid)"
  using tracks_session_step [of ReportPlayStarted] tracks_session_step [of ReportPlayCompleted]
    tracks_session_step [of RequestInvalidate] tracks_session_step [of "ReportPlayElapsed n"]
    tracks_session_step [of RequestSkip] tracks_session_step [of "LikePlay pid"]
    tracks_session_step [of "UnlikePlay pid"] tracks_session_step [of "DislikePlay pid"]
  by (simp_all add: tracks_def)

lemma preserves_onSoundPlay: "preserves (onSoundPlay pid)"
  unfolding preserves_def
proof (intro allI impI)
  fix p assume c: "coupled p"
  show "coupled (fst (onSoundPlay pid p)) \<and>
        track (current_key (session p)) (snd (onSoundPlay pid p)) =
          Some (current_key (session (fst (onSoundPlay pid p))))"
  proof (cases "activePlay p")
    case None
    then show ?thesis using c by (simp add: onSoundPlay_def)
  next
    case (Some b)
    let ?q = "p\<lparr>paused := False, activePlay := Some (b\<lparr>playStarted := True\<rparr>)\<rparr>"
    have l: "same_link p ?q" using Some by (simp add: same_link_def)
    show ?thesis
      using Some c call_session_same_link [OF tracks_fns(1) c l] same_link_coupled [OF l c]
      by (simp add: onSoundPlay_def with_session_def Let_def)
  qed
qed

lemma preserves_onSoundPause: "preserves (onSoundPause pid)"
  unfolding preserves_def
proof (intro allI impI)
  fix p assume c: "coupled p"
  have l: "same_link p (p\<lparr>paused := True\<rparr>)" by (simp add: same_link_def)
  show "coupled (fst (onSoundPause pid p)) \<and>
        track (current_key (session p)) (snd (onSoundPause pid p)) =
          Some (current_key (session (fst (onSoundPause pid p))))"
    using c same_link_coupled [OF l c] by (simp add: onSoundPause_def with_session_def)
qed

lemma preserves_onSoundFinish: "preserves (onSoundFinish pid e)"
  unfolding preserves_def
proof (intro allI impI)
  fix p assume c: "coupled p"
  show "coupled (fst (onSoundFinish pid e p)) \<and>
        track (current_key (session p)) (snd (onSoundFinish pid e p)) =
          Some (current_key (session (fst (onSoundFinish pid e p))))"
  proof (cases "activePlay p")
    case None
    then show ?thesis using c by (simp add: onSoundFinish_def)
  next
    case (Some b)
    let ?q = "p\<lparr>activePlay := Some (b\<lparr> soundCompleted := True,
                 soundCompletedWithError := (if e then True else soundCompletedWithError b) \<rparr>)\<rparr>"
    have l: "same_link p ?q" using Some by (simp add: same_link_def)
    show ?thesis
      using Some c call_session_same_link [OF tracks_fns(2) c l]
        call_session_same_link [OF tracks_fns(3) c l] same_link_coupled [OF l c]
      by (cases e) (simp_all add: onSoundFinish_def Let_def)
  qed
qed

lemma preserves_onSoundElapse: "preserves (onSoundElapse pid pos)"
  unfolding preserves_def
proof (intro allI impI)
  fix p assume c: "coupled p"
  show "coupled (fst (onSoundElapse pid pos p)) \<and>
        track (current_key (session p)) (snd (onSoundElapse pid pos p)) =
          Some (current_key (session (fst (onSoundElapse pid pos p))))"
  proof (cases "activePlay p")
    case None
    then show ?thesis using c by (simp add: onSoundElapse_def)
  next
    case (Some b)
    let ?q = "p\<lparr>activePlay := Some (b\<lparr>previousPosition := pos\<rparr>)\<rparr>"
    have l: "same_link p ?q" using Some by (simp add: same_link_def)
    show ?thesis
      using Some c call_session_same_link [OF tracks_fns(4) c l] same_link_coupled [OF l c]
      by (simp add: onSoundElapse_def Let_def)
  qed
qed

lemma same_link_refl: "same_link p p"
  by (simp add: same_link_def)

lemma preserves_call: "tracks f \<Longrightarrow> preserves (call_session f)"
  unfolding preserves_def using call_session_same_link same_link_refl by blast

lemma preserves_on: "tracks f \<Longrightarrow> preserves (on_session f)"
  unfolding preserves_def using on_session_same_link same_link_refl by blast

lemma preserves_player_tune: "preserves player_tune"
  using preserves_call [OF tracks_tune]
  by (simp add: preserves_def player_tune_def with_session_def)

lemma preserves_player_pause: "preserves player_pause"
  by (simp add: preserves_def player_pause_def with_session_def split: option.splits)

lemma preserves_player_skip: "preserves player_skip"
  using preserves_call [OF tracks_fns(5)]
  by (simp add: preserves_def player_skip_def with_session_def)

lemma preserves_player_play: "preserves player_play"
  unfolding preserves_def
proof (intro allI impI)
  fix p assume c: "coupled p"
  have l: "same_link p (p\<lparr>paused := False\<rparr>)" by (simp add: same_link_def)
  show "coupled (fst (player_play p)) \<and>
        track (current_key (session p)) (snd (player_play p)) =
          Some (current_key (session (fst (player_play p))))"
    using c call_session_same_link [OF tracks_tune c l]
    by (simp add: player_play_def with_session_def after_def split: option.splits)
qed

lemma preserves_seq:
  assumes "preserves h1" and "preserves h2"
  shows "preserves (\<lambda>p. case h1 p of (p1, os1) \<Rightarrow> after os1 (h2 p1))"
  unfolding preserves_def
proof (intro allI impI)
  fix p assume c: "coupled p"
  obtain p1 os1 where h1: "h1 p = (p1, os1)" by (cases "h1 p")
  have a: "coupled p1" "track (current_key (session p)) os1 = Some (current_key (session p1))"
    using assms(1) c h1 by (auto simp: preserves_def dest: spec [of _ p])
  have b: "coupled (fst (h2 p1))"
    "track (current_key (session p1)) (snd (h2 p1)) = Some (current_key (session (fst (h2 p1))))"
    using assms(2) a(1) by (auto simp: preserves_def dest: spec [of _ p1])
  show "coupled (fst (case h1 p of (p1, os1) \<Rightarrow> after os1 (h2 p1))) \<and>
        track (current_key (session p)) (snd (case h1 p of (p1, os1) \<Rightarrow> after os1 (h2 p1))) =
          Some (current_key (session (fst (case h1 p of (p1, os1) \<Rightarrow> after os1 (h2 p1)))))"
    using h1 a b by (simp add: after_def track_append)
qed

lemma preserves_player_like: "preserves player_like"
  unfolding preserves_def
proof (intro allI impI)
  fix p assume c: "coupled p"
  show "coupled (fst (player_like p)) \<and>
        track (current_key (session p)) (snd (player_like p)) =
          Some (current_key (session (fst (player_like p))))"
  proof (cases "activePlay p")
    case None
    then show ?thesis using c by (simp add: player_like_def with_session_def)
  next
    case (Some b)
    show ?thesis
      using Some c call_session_same_link [OF tracks_fns(6) [of "ap_id b"] c same_link_refl]
      by (simp add: player_like_def with_session_def case_prod_beta track_append)
  qed
qed

lemma preserves_player_unlike: "preserves player_unlike"
  unfolding preserves_def
proof (intro allI impI)
  fix p assume c: "coupled p"
  show "coupled (fst (player_unlike p)) \<and>
        track (current_key (session p)) (snd (player_unlike p)) =
          Some (current_key (session (fst (player_unlike p))))"
  proof (cases "activePlay p")
    case None
    then show ?thesis using c by (simp add: player_unlike_def with_session_def)
  next
    case (Some b)
    show ?thesis
      using Some c call_session_same_link [OF tracks_fns(7) [of "ap_id b"] c same_link_refl]
      by (simp add: player_unlike_def with_session_def case_prod_beta track_append)
  qed
qed

lemma preserves_player_dislike: "preserves player_dislike"
  unfolding preserves_def
proof (intro allI impI)
  fix p assume c: "coupled p"
  show "coupled (fst (player_dislike p)) \<and>
        track (current_key (session p)) (snd (player_dislike p)) =
          Some (current_key (session (fst (player_dislike p))))"
  proof (cases "activePlay p")
    case None
    then show ?thesis using c by (simp add: player_dislike_def with_session_def)
  next
    case (Some b)
    let ?q = "fst (call_session (dislikePlay (ap_id b)) p)"
    have a: "coupled ?q"
      "track (current_key (session p)) (snd (call_session (dislikePlay (ap_id b)) p)) =
         Some (current_key (session ?q))"
      using call_session_same_link [OF tracks_fns(8) [of "ap_id b"] c same_link_refl] by simp_all
    have s: "coupled (fst (player_skip ?q))"
      "track (current_key (session ?q)) (snd (player_skip ?q)) =
         Some (current_key (session (fst (player_skip ?q))))"
      using preserves_player_skip a(1) by (auto simp: preserves_def dest: spec [of _ ?q])
    show ?thesis
      using Some c a s
      by (simp add: player_dislike_def with_session_def case_prod_beta track_append after_def)
  qed
qed

lemma preserves_player_suspend: "preserves player_suspend"
  unfolding preserves_def
proof (intro allI impI)
  fix p assume c: "coupled p"
  have e: "fst (player_pause p) = p"
    by (simp add: player_pause_def with_session_def split: option.splits)
  have q: "track a (snd (player_pause p)) = Some a" for a
    by (simp add: player_pause_def with_session_def split: option.splits)
  have l: "same_link p (p\<lparr>suspended := True\<rparr>)" by (simp add: same_link_def)
  show "coupled (fst (player_suspend p)) \<and>
        track (current_key (session p)) (snd (player_suspend p)) =
          Some (current_key (session (fst (player_suspend p))))"
    using c same_link_coupled [OF l c] q e
    by (simp add: player_suspend_def with_session_def case_prod_beta track_append)
qed

lemma preserves_player_unsuspend: "preserves (player_unsuspend sv b)"
  unfolding preserves_def
proof (intro allI impI)
  fix p assume c: "coupled p"
  let ?q = "fst (call_session (unsuspend sv) p)"
  have a: "coupled ?q"
    "track (current_key (session p)) (snd (call_session (unsuspend sv) p)) =
       Some (current_key (session ?q))"
    using call_session_same_link [OF tracks_unsuspend c same_link_refl] by simp_all
  show "coupled (fst (player_unsuspend sv b p)) \<and>
        track (current_key (session p)) (snd (player_unsuspend sv b p)) =
          Some (current_key (session (fst (player_unsuspend sv b p))))"
    using a
    by (simp add: player_unsuspend_def play_when_ready_def case_prod_beta track_append after_def)
qed

lemma preserves_player_destroy: "preserves player_destroy"
  by (auto simp: preserves_def player_destroy_def coupled_def linked_def split: option.splits)

lemma preserves_player_step: "preserves (player_step i)"
proof (cases i)
  case (ToSession x)
  then show ?thesis
    using preserves_on [OF tracks_session_step [of x]] by (simp add: preserves_def)
next
  case (SoundPlayEv x)
  then show ?thesis using preserves_onSoundPlay [of x] by (simp add: preserves_def)
next
  case (SoundPauseEv x)
  then show ?thesis using preserves_onSoundPause [of x] by (simp add: preserves_def)
next
  case (SoundFinishEv x e)
  then show ?thesis using preserves_onSoundFinish [of x e] by (simp add: preserves_def)
next
  case (SoundElapseEv x y)
  then show ?thesis using preserves_onSoundElapse [of x y] by (simp add: preserves_def)
next
  case PlayerTune
  then show ?thesis using preserves_player_tune by (simp add: preserves_def)
next
  case PlayerPlay
  then show ?thesis using preserves_player_play by (simp add: preserves_def)
next
  case PlayerPause
  then show ?thesis using preserves_player_pause by (simp add: preserves_def)
next
  case PlayerSkip
  then show ?thesis using preserves_player_skip by (simp add: preserves_def)
next
  case PlayerLike
  then show ?thesis using preserves_player_like by (simp add: preserves_def)
next
  case PlayerUnlike
  then show ?thesis using preserves_player_unlike by (simp add: preserves_def)
next
  case PlayerDislike
  then show ?thesis using preserves_player_dislike by (simp add: preserves_def)
next
  case PlayerSuspend
  then show ?thesis using preserves_player_suspend by (simp add: preserves_def)
next
  case (PlayerUnsuspend sv b)
  then show ?thesis using preserves_player_unsuspend [of sv b] by (simp add: preserves_def)
next
  case PlayerDestroy
  then show ?thesis using preserves_player_destroy by (simp add: preserves_def)
next
  case (Deferred d)
  have "preserves (on_ref held f)" if "tracks f" for held f
    using preserves_on [OF that] by (cases held) (simp_all add: preserves_def)
  from this [OF tracks_fns(3)] this [OF tracks_fns(2)] show ?thesis
    using Deferred by (cases d) (simp_all add: preserves_def)
qed

lemma preserves_player_run: "preserves (player_run is)"
proof (induction "is")
  case Nil
  then show ?case by (simp add: preserves_def)
next
  case (Cons i "is")
  have "preserves (\<lambda>p. case player_step i p of (p1, os1) \<Rightarrow> after os1 (player_run is p1))"
    using preserves_seq [OF preserves_player_step Cons.IH] .
  then show ?case by (simp add: preserves_def)
qed

section \<open>Where a pending play is promoted\<close>

lemma assignCurrentPlay_fields [simp]:
  "pendingPlay (fst (assignCurrentPlay p w s)) = pendingPlay s"
  "pendingRequest (fst (assignCurrentPlay p w s)) = pendingRequest s"
  "current_key (fst (assignCurrentPlay p w s)) = map_option play_key p"
  by (simp_all add: assignCurrentPlay_def Let_def current_key_def split: option.splits)

lemma receiveStartPlay_fields [simp]:
  "pendingPlay (fst (receiveStartPlay p r s)) = pendingPlay s"
  "current_key (fst (receiveStartPlay p r s)) = current_key s"
  by (simp_all add: receiveStartPlay_def requestNextPlay_def after_def current_key_def
      split: option.splits)

lemma tune_fields:
  "current_key (fst (tune s)) = current_key s \<or> current_key (fst (tune s)) = None"
  by (auto simp add: tune_def getDefaultPlacementInformation_def getPlacementInformation_def
      requestNextPlay_def after_def current_key_def assignCurrentPlay_def Let_def split: option.splits)

lemma retune_fields:
  "current_key (fst (retune s)) = current_key s \<or> current_key (fst (retune s)) = None"
  using tune_fields [of s] by (simp add: retune_def)

lemma promoted_retiring:
  assumes pr: "promoted q i s"
  shows "retiring i"
proof (cases i)
  case Tune
  then show ?thesis using pr tune_fields [of s] by (auto simp: promoted_def)
next
  case (SetCredentials a b)
  then show ?thesis using pr by (auto simp: promoted_def setCredentials_def)
next
  case (SetPlacementId x)
  then show ?thesis using pr retune_fields [of "s\<lparr>placementId := Some x\<rparr>"]
    by (auto simp: promoted_def setPlacementId_def after_def current_key_def)
next
  case (SetStationId x)
  then show ?thesis using pr retune_fields [of "s\<lparr>stationId := Some x\<rparr>"]
    by (auto simp: promoted_def setStationId_def after_def current_key_def)
next
  case (SetFormats x)
  then show ?thesis using pr retune_fields [of "s\<lparr>formats := x\<rparr>"]
    by (auto simp: promoted_def setFormats_def after_def current_key_def)
next
  case (SetMaxBitrate x)
  then show ?thesis using pr by (auto simp: promoted_def setMaxBitrate_def current_key_def)
next
  case ReportPlayStarted
  then show ?thesis using pr
    by (auto simp: promoted_def reportPlayStarted_def startPlay_def split: option.splits if_splits)
next
  case (ReportPlayElapsed x)
  then show ?thesis using pr
    by (auto simp: promoted_def reportPlayElapsed_def split: option.splits)
next
  case ReportPlayCompleted
  then show ?thesis using pr
    by (auto simp: promoted_def reportPlayCompleted_def split: option.splits if_splits)
next
  case RequestSkip
  then show ?thesis using pr
    by (auto simp: promoted_def requestSkip_def split: option.splits if_splits)
next
  case RequestInvalidate
  then show ?thesis using pr
    by (auto simp: promoted_def requestInvalidate_def sendInvalidate_def split: option.splits)
next
  case (LikePlay x)
  then show ?thesis using pr
    by (auto simp: promoted_def likePlay_def set_liked_def current_key_def play_key_def
        split: option.splits if_splits)
next
  case (UnlikePlay x)
  then show ?thesis using pr
    by (auto simp: promoted_def unlikePlay_def set_liked_def current_key_def play_key_def
        split: option.splits if_splits)
next
  case (DislikePlay x)
  then show ?thesis using pr
    by (auto simp: promoted_def dislikePlay_def set_liked_def current_key_def play_key_def
        split: option.splits if_splits)
next
  case (Unsuspend sv)
  show ?thesis
  proof (cases "saved_play sv")
    case None
    have "current_key (fst (unsuspend sv s)) = current_key s \<or>
          current_key (fst (unsuspend sv s)) = None"
      using None tune_fields [of "s\<lparr>placementId := saved_placementId sv\<rparr>"]
        tune_fields [of "s\<lparr>stationId := saved_stationId sv\<rparr>"]
        tune_fields [of "s\<lparr>placementId := saved_placementId sv, stationId := saved_stationId sv\<rparr>"]
        tune_fields [of s]
      by (auto simp: unsuspend_def getActivePlay_def after_def current_key_def
          split: option.splits)
    then show ?thesis using pr Unsuspend by (auto simp: promoted_def)
  next
    case (Some p)
    have "pendingPlay (fst (unsuspend sv s)) = pendingPlay s"
      using Some
      by (auto simp: unsuspend_def getActivePlay_def after_def Let_def case_prod_beta
          split: option.splits)
    then show ?thesis using pr Unsuspend by (auto simp: promoted_def)
  qed
next
  case (DefaultPlacementDone x)
  then show ?thesis using pr
    by (auto simp: promoted_def receiveDefaultPlacementInformation_def after_def Let_def
        requestNextPlay_def current_key_def split: placement_information.splits option.splits)
next
  case (DefaultPlacementFail d r)
  then show ?thesis using pr
    by (auto simp: promoted_def failedDefaultPlacementInformation_def Let_def split: if_splits)
next
  case (PlacementDone x)
  then show ?thesis using pr
    by (auto simp: promoted_def receivePlacementInformation_def after_def Let_def
        requestNextPlay_def current_key_def split: placement_information.splits option.splits)
next
  case (PlacementFail x)
  then show ?thesis using pr by (auto simp: promoted_def failedPlacementInformation_def Let_def)
next
  case (NextPlayDone a r)
  then show ?thesis using pr
    by (auto simp: promoted_def receiveNextPlay_def Let_def current_key_def
        split: play_response.splits option.splits if_splits)
next
  case (NextPlayFail d a r)
  then show ?thesis using pr by (auto simp: promoted_def failedNextPlay_def Let_def split: if_splits)
next
  case (StartDone p r)
  then show ?thesis using pr by (auto simp: promoted_def)
next
  case (StartFail p r)
  then show ?thesis using pr
    by (auto simp: promoted_def failStartPlay_def current_key_def split: option.splits if_splits)
next
  case CompleteAlways
  then show ?thesis by simp
next
  case (SkipDone p ok)
  then show ?thesis using pr
    by (cases ok) (auto simp: promoted_def receiveSkip_def split: if_splits)
next
  case (SkipFail p)
  then show ?thesis using pr by (auto simp: promoted_def failSkip_def split: if_splits)
next
  case (InvalidateDone p ok)
  then show ?thesis using pr
    by (cases ok) (auto simp: promoted_def receiveInvalidate_def split: if_splits)
next
  case (InvalidateFail d p)
  then show ?thesis using pr by (auto simp: promoted_def failInvalidate_def Let_def split: if_splits)
next
  case (Timer t)
  then show ?thesis using pr
    by (cases t)
      (auto simp: promoted_def requestNextPlay_def sendInvalidate_def startPlay_def
        getPlacementInformation_def getDefaultPlacementInformation_def
        split: option.splits if_splits)
next
  case (ClientId d)
  then show ?thesis using pr
    by (auto simp: promoted_def requestNextPlay_then_def Let_def current_key_def
        split: option.splits if_splits)
qed

lemma promoted_effects:
  assumes pr: "promoted q i s"
  shows "snd (session_step i s) =
           (case current s of Some c \<Rightarrow> [Trigger (PlayCompleted (play c))] | None \<Rightarrow> []) @
           [Trigger (PlayActive q)]"
proof (cases i)
  case CompleteAlways
  then show ?thesis using pr
    by (auto simp: promoted_def receivePlayCompleted_def assignCurrentPlay_def Let_def
        current_key_def split: option.splits if_splits)
next
  case (SkipDone p ok)
  then show ?thesis using pr
    by (cases ok)
      (auto simp: promoted_def receiveSkip_def assignCurrentPlay_def Let_def
        current_key_def split: option.splits if_splits)
next
  case (InvalidateDone p ok)
  then show ?thesis using pr
    by (cases ok)
      (auto simp: promoted_def receiveInvalidate_def assignCurrentPlay_def Let_def
        current_key_def requestNextPlay_def after_def split: option.splits if_splits)
qed (use promoted_retiring [OF pr] in simp_all)

section \<open>A run of a Player keeps one play at a time\<close>

lemma coupled_new_Player: "coupled (new_Player tok sec)"
  by (simp add: coupled_def linked_def new_Player_def new_Session_def current_key_def)

text \<open>
  Claim C1. Whatever reaches a fresh Player and its Session, in whatever order: the
  Player has a binding exactly when the Session has a current play, for the same play
  id, and no Sound lives but the one of that binding, so at most one Sound lives; and
  in the events emitted over the whole run a play becomes active only while none is
  active, which is to say after the play before it was retired with
  \<^verbatim>\<open>play-completed\<close>. And in any state of a Session, a pending play is promoted only
  by an input that retires a play, and that step emits \<^verbatim>\<open>play-completed\<close> for the
  current play, when there is one, and then \<^verbatim>\<open>play-active\<close> for the promoted play,
  and nothing else. The state holds at most one current play record and one binding by
  its type.
\<close>

theorem no_double_play:
  "coupled (fst (player_run is (new_Player tok sec)))
   \<and> length (live_sounds (fst (player_run is (new_Player tok sec)))) \<le> 1
   \<and> track None (snd (player_run is (new_Player tok sec))) =
       Some (current_key (session (fst (player_run is (new_Player tok sec)))))
   \<and> (promoted q i s \<longrightarrow>
        retiring i \<and>
        snd (session_step i s) =
          (case current s of Some c \<Rightarrow> [Trigger (PlayCompleted (play c))] | None \<Rightarrow> []) @
          [Trigger (PlayActive q)])"
proof -
  let ?p = "fst (player_run is (new_Player tok sec))"
  have k: "current_key (session (new_Player tok sec)) = None"
    by (simp add: new_Player_def new_Session_def current_key_def)
  have a: "coupled ?p"
    "track None (snd (player_run is (new_Player tok sec))) = Some (current_key (session ?p))"
    using preserves_player_run [of "is"] coupled_new_Player [of tok sec] k
    by (auto simp: preserves_def dest: spec [of _ "new_Player tok sec"])
  have one: "length (live_sounds ?p) \<le> 1"
    using a(1) by (auto simp: coupled_def linked_def split: option.splits)
  have promotion: "retiring i \<and>
        snd (session_step i s) =
          (case current s of Some c \<Rightarrow> [Trigger (PlayCompleted (play c))] | None \<Rightarrow> []) @
          [Trigger (PlayActive q)]"
    if "promoted q i s"
    using promoted_retiring [OF that] promoted_effects [OF that] by simp
  show ?thesis using a one promotion by blast
qed

text \<open>The run that brings the next play in while the first is acknowledged: one binding,
  one Sound, and the first play is still the active one. A skip then promotes the
  second play, retiring the first.\<close>

theorem no_double_play_witness:
  "coupled (after_run playing)
   \<and> length (live_sounds (after_run playing)) \<le> 1
   \<and> track None (snd (player_run playing listener0)) = Some (Some (play_key play_A))
   \<and> promoted play_B (SkipDone play_A True) (session (after_run playing))
   \<and> snd (session_step (SkipDone play_A True) (session (after_run playing))) =
       [Trigger (PlayCompleted play_A), Trigger (PlayActive play_B)]"
proof -
  have c: "current_key (session (fst (player_run playing listener0))) = Some (play_key play_A)"
    by code_simp
  have pr: "promoted play_B (SkipDone play_A True) (session (after_run playing))"
    by code_simp
  have cur: "current (session (after_run playing)) =
               Some \<lparr>play = play_A, canSkip = True, started = True, retryCount = 0\<rparr>"
    by code_simp
  show ?thesis
    using no_double_play [of playing "Some ''token''" "Some ''secret''" play_B
        "SkipDone play_A True" "session (after_run playing)"] c pr cur
    by (simp add: after_run_def listener0_def)
qed

section \<open>Retrying the request for the next play\<close>

lemma drive_empty: "drive n r [] s = (s, [], [])"
  by (cases n) simp_all

lemma drive_unfold:
  "0 < n \<Longrightarrow> drive n r (i # is) s =
     (case session_step i s of
        (s1, os) \<Rightarrow>
          (case drive (n - 1) r (is @ concat (map (react r) os)) s1 of
             (s2, os2, rest) \<Rightarrow> (s2, os @ os2, rest)))"
  by (cases n) simp_all

lemma failedNextPlay_retry:
  "is_pending a s \<Longrightarrow> \<not> (status r = 403 \<and> error_code r = Some 19) \<Longrightarrow>
   failedNextPlay delay a r s =
     (s, [Delay (case delay of Some d \<Rightarrow> if d \<noteq> 0 then d * 2 else 500 | None \<Rightarrow> 500)
            (RequestNextPlayT
               (case delay of Some d \<Rightarrow> if d \<noteq> 0 then d * 2 else 500 | None \<Rightarrow> 500))])"
  by (simp add: failedNextPlay_def Let_def)

lemma requestNextPlay_then_retry:
  "0 < d \<Longrightarrow> d \<le> 60000 \<Longrightarrow> pendingRequest s = Some pr \<Longrightarrow>
   requestNextPlay_then (Some d) s =
     (s\<lparr>pendingRequest := Some (pr\<lparr>req_retryCount := req_retryCount pr + 1\<rparr>)\<rparr>,
      [Ajax (PostPlay (ajax pr) (Some d))])"
  by (simp add: requestNextPlay_then_def truthy_num_def)

lemma requestNextPlay_then_give_up:
  "60000 < d \<Longrightarrow> pendingRequest s = Some pr \<Longrightarrow>
   requestNextPlay_then (Some d) s =
     (if current s = None
      then (s\<lparr>pendingRequest := None, current := None\<rparr>, [Trigger PlaysExhausted])
      else (s\<lparr>pendingRequest := None\<rparr>, []))"
  by (auto simp add: requestNextPlay_then_def truthy_num_def assignCurrentPlay_def Let_def)

text \<open>
  Claim C2. A next-play request is pending and every attempt fails (with any failure but
  the 403 of error code 19, which ends the retrying with \<^verbatim>\<open>not-in-us\<close>). A failure after
  a delay \<open>d\<close> sets the timer to \<open>2 * d\<close>. From the first failure on, the Session waits
  500, 1000, 2000, 4000, 8000, 16000 and 32000 ms and sends the same request again
  after each; after the next failure it waits 64000 ms, which exceeds 60000, and gives
  up: the pending request is cleared, and when no play is current it emits
  \<^verbatim>\<open>plays-exhausted\<close>, its idle state. Nothing is left to happen then, and 24 inputs are
  enough to get there.
\<close>

theorem next_play_retry_backoff:
  assumes pending: "pendingRequest s = Some pr"
    and retryable: "\<not> (status r = 403 \<and> error_code r = Some 19)"
    and fuel: "24 \<le> n"
  shows "(0 < d \<longrightarrow>
            failedNextPlay (Some d) (ajax pr) r s = (s, [Delay (2 * d) (RequestNextPlayT (2 * d))]))
       \<and> drive n r [NextPlayFail None (ajax pr) r] s =
     (s\<lparr>pendingRequest := None\<rparr>,
      [Delay 500 (RequestNextPlayT 500), ClientIdThen (Some 500),
       Ajax (PostPlay (ajax pr) (Some 500)),
       Delay 1000 (RequestNextPlayT 1000), ClientIdThen (Some 1000),
       Ajax (PostPlay (ajax pr) (Some 1000)),
       Delay 2000 (RequestNextPlayT 2000), ClientIdThen (Some 2000),
       Ajax (PostPlay (ajax pr) (Some 2000)),
       Delay 4000 (RequestNextPlayT 4000), ClientIdThen (Some 4000),
       Ajax (PostPlay (ajax pr) (Some 4000)),
       Delay 8000 (RequestNextPlayT 8000), ClientIdThen (Some 8000),
       Ajax (PostPlay (ajax pr) (Some 8000)),
       Delay 16000 (RequestNextPlayT 16000), ClientIdThen (Some 16000),
       Ajax (PostPlay (ajax pr) (Some 16000)),
       Delay 32000 (RequestNextPlayT 32000), ClientIdThen (Some 32000),
       Ajax (PostPlay (ajax pr) (Some 32000)),
       Delay 64000 (RequestNextPlayT 64000), ClientIdThen (Some 64000)]
       @ (if current s = None then [Trigger PlaysExhausted] else []),
      [])"
proof -
  have doubling: "failedNextPlay (Some d) (ajax pr) r s =
                    (s, [Delay (2 * d) (RequestNextPlayT (2 * d))])" if "0 < d"
    using that pending retryable
    by (simp add: failedNextPlay_retry is_pending_def mult.commute)
  have run: "drive n r [NextPlayFail None (ajax pr) r] s =
     (s\<lparr>pendingRequest := None\<rparr>,
      [Delay 500 (RequestNextPlayT 500), ClientIdThen (Some 500),
       Ajax (PostPlay (ajax pr) (Some 500)),
       Delay 1000 (RequestNextPlayT 1000), ClientIdThen (Some 1000),
       Ajax (PostPlay (ajax pr) (Some 1000)),
       Delay 2000 (RequestNextPlayT 2000), ClientIdThen (Some 2000),
       Ajax (PostPlay (ajax pr) (Some 2000)),
       Delay 4000 (RequestNextPlayT 4000), ClientIdThen (Some 4000),
       Ajax (PostPlay (ajax pr) (Some 4000)),
       Delay 8000 (RequestNextPlayT 8000), ClientIdThen (Some 8000),
       Ajax (PostPlay (ajax pr) (Some 8000)),
       Delay 16000 (RequestNextPlayT 16000), ClientIdThen (Some 16000),
       Ajax (PostPlay (ajax pr) (Some 16000)),
       Delay 32000 (RequestNextPlayT 32000), ClientIdThen (Some 32000),
       Ajax (PostPlay (ajax pr) (Some 32000)),
       Delay 64000 (RequestNextPlayT 64000), ClientIdThen (Some 64000)]
       @ (if current s = None then [Trigger PlaysExhausted] else []),
      [])"
    using pending retryable fuel
    by (simp add: drive_unfold drive_empty failedNextPlay_retry requestNextPlay_then_retry
        requestNextPlay_then_give_up is_pending_def requestNextPlay_def)
  show ?thesis using doubling run by blast
qed

text \<open>The listener's first request fails with status 500 for ever; nothing is current,
  so the Session ends idle.\<close>

theorem next_play_retry_backoff_witness:
  "failedNextPlay (Some 500) (request 0) server_error (session (after_run tuned)) =
     (session (after_run tuned), [Delay 1000 (RequestNextPlayT 1000)])
   \<and> drive 24 server_error [NextPlayFail None (request 0) server_error]
       (session (after_run tuned)) =
     ((session (after_run tuned))\<lparr>pendingRequest := None\<rparr>,
      [Delay 500 (RequestNextPlayT 500), ClientIdThen (Some 500),
       Ajax (PostPlay (request 0) (Some 500)),
       Delay 1000 (RequestNextPlayT 1000), ClientIdThen (Some 1000),
       Ajax (PostPlay (request 0) (Some 1000)),
       Delay 2000 (RequestNextPlayT 2000), ClientIdThen (Some 2000),
       Ajax (PostPlay (request 0) (Some 2000)),
       Delay 4000 (RequestNextPlayT 4000), ClientIdThen (Some 4000),
       Ajax (PostPlay (request 0) (Some 4000)),
       Delay 8000 (RequestNextPlayT 8000), ClientIdThen (Some 8000),
       Ajax (PostPlay (request 0) (Some 8000)),
       Delay 16000 (RequestNextPlayT 16000), ClientIdThen (Some 16000),
       Ajax (PostPlay (request 0) (Some 16000)),
       Delay 32000 (RequestNextPlayT 32000), ClientIdThen (Some 32000),
       Ajax (PostPlay (request 0) (Some 32000)),
       Delay 64000 (RequestNextPlayT 64000), ClientIdThen (Some 64000),
       Trigger PlaysExhausted],
      [])"
proof -
  have pending: "pendingRequest (session (after_run tuned)) =
                   Some \<lparr>ajax = request 0, req_retryCount = 0\<rparr>"
    by code_simp
  have idle: "current (session (after_run tuned)) = None"
    by code_simp
  have retryable: "\<not> (status server_error = 403 \<and> error_code server_error = Some 19)"
    by (simp add: server_error_def)
  show ?thesis
    using next_play_retry_backoff [OF pending retryable, of 24 500] idle by simp
qed

section \<open>A Sound that finishes before its start is acknowledged\<close>

text \<open>
  Claim C3. The Sound of the active play has started, the Session has not yet announced
  \<^verbatim>\<open>play-started\<close> for it, no finish has been seen, and the Player has not been
  destroyed. When the finish comes first, the Player does nothing but note it: no
  effect, the Session untouched. When the acknowledgment then arrives, the Player's
  listener runs inside \<^verbatim>\<open>play-started\<close> and hands exactly one function to
  \<^verbatim>\<open>_.defer\<close>, holding the Session: the invalidation when the finish carried the error
  flag, the completion otherwise. Only when that function runs is the one request sent.
\<close>

theorem finish_before_start_ack_is_deferred:
  assumes bound: "activePlay p = Some b" "ap_id b = play_id pl"
    and sound_started: "playStarted b"
    and not_acknowledged: "\<not> startReportedToServer b"
    and no_finish_yet: "\<not> soundCompleted b" "\<not> soundCompletedWithError b"
    and cur: "current (session p) = Some c" "obj (play c) = obj pl"
    and alive: "\<not> destroyed p"
  shows "snd (onSoundFinish (play_id pl) withError p) = []
       \<and> session (fst (onSoundFinish (play_id pl) withError p)) = session p
       \<and> snd (player_run
                [SoundFinishEv (play_id pl) withError,
                 ToSession (StartDone pl \<lparr>success = True, can_skip = k\<rparr>)] p) =
           [Trigger (PlayStarted pl),
            Defer (if withError then DeferRequestInvalidate TheSession
                   else DeferReportPlayCompleted TheSession),
            ClientIdThen None]
       \<and> snd (player_run
                [SoundFinishEv (play_id pl) withError,
                 ToSession (StartDone pl \<lparr>success = True, can_skip = k\<rparr>),
                 Deferred (if withError then DeferRequestInvalidate TheSession
                           else DeferReportPlayCompleted TheSession)] p) =
           [Trigger (PlayStarted pl),
            Defer (if withError then DeferRequestInvalidate TheSession
                   else DeferReportPlayCompleted TheSession),
            ClientIdThen None,
            Ajax (if withError then PostInvalidate (play c) None
                  else PostComplete (play_id (play c)))]"
proof -
  let ?b = "b\<lparr>soundCompleted := True, soundCompletedWithError := withError\<rparr>"
  let ?p = "p\<lparr>activePlay := Some ?b\<rparr>"
  let ?d = "if withError then DeferRequestInvalidate TheSession
            else DeferReportPlayCompleted TheSession"
  have finish: "onSoundFinish (play_id pl) withError p = (?p, [])"
    using bound sound_started not_acknowledged no_finish_yet
    by (simp add: onSoundFinish_def)
  have started: "player_step (ToSession (StartDone pl \<lparr>success = True, can_skip = k\<rparr>)) ?p =
      (?p\<lparr>session := (session p)\<lparr>current := Some (c\<lparr>canSkip := k, started := True\<rparr>)\<rparr>,
          activePlay := Some (?b\<lparr>startReportedToServer := True\<rparr>)\<rparr>,
       [Trigger (PlayStarted pl), Defer ?d, ClientIdThen None])"
    using bound cur alive
    by (simp add: on_session_def receiveStartPlay_def requestNextPlay_def after_def
        onPlayStarted_def this_session_def)
  show ?thesis
    using finish started cur
    by (simp add: after_def on_session_def requestInvalidate_def sendInvalidate_def
        reportPlayCompleted_def)
qed

text \<open>The listener's first play ends while its start is unacknowledged.\<close>

theorem finish_before_start_ack_is_deferred_witness:
  "snd (player_run
          [SoundFinishEv 101 False,
           ToSession (StartDone play_A \<lparr>success = True, can_skip = True\<rparr>),
           Deferred (DeferReportPlayCompleted TheSession)] (after_run unacknowledged)) =
     [Trigger (PlayStarted play_A), Defer (DeferReportPlayCompleted TheSession),
      ClientIdThen None, Ajax (PostComplete 101)]"
proof -
  have b: "activePlay (after_run unacknowledged) =
             Some \<lparr>ap_id = 101, sound = 0, startReportedToServer = False,
                    soundCompleted = False, soundCompletedWithError = False,
                    playStarted = True, previousPosition = 0\<rparr>"
    by code_simp
  have c: "current (session (after_run unacknowledged)) =
             Some \<lparr>play = play_A, canSkip = False, started = False, retryCount = 0\<rparr>"
    by code_simp
  have a: "\<not> destroyed (after_run unacknowledged)"
    by code_simp
  have i: "play_id play_A = 101" by (simp add: play_A_def)
  show ?thesis
    using finish_before_start_ack_is_deferred [OF b _ _ _ _ _ c _ a, of play_A False True] i
    by simp
qed

section \<open>Reporting elapsed time\<close>

lemma onSoundElapse_bound:
  assumes "activePlay p = Some b" and "ap_id b = pid" and "current (session p) = Some c"
    and "\<not> destroyed p"
  shows "onSoundElapse pid pos p =
           (p\<lparr>activePlay := Some (b\<lparr>previousPosition := pos\<rparr>)\<rparr>,
            if previousPosition b div 30000 \<noteq> pos div 30000
            then [Ajax (PostElapse (play_id (play c)) (pos div 1000))] else [])"
  using assms
  by (simp add: onSoundElapse_def call_session_def with_session_def on_session_def
      reportPlayElapsed_def after_def)

text \<open>
  Claim C7. A play is bound and current, in a Player that is not destroyed. Over any
  sequence of elapse events, the Player sends an elapse report, with the position in
  whole seconds, exactly at the positions whose 30-second count \<^verbatim>\<open>floor(position/30000)\<close> differs from that of the position
  recorded before, and nothing else. For a binding that starts at position 0, the
  positions 0, 10000, 29999, 30000, 30001, 61000 give two reports, at 30 and at 61
  seconds.
\<close>

theorem elapse_reports_at_boundaries:
  assumes "activePlay p = Some b" and "ap_id b = pid" and "current (session p) = Some c"
    and "\<not> destroyed p"
  shows "snd (player_run (map (SoundElapseEv pid) ps) p) =
           map (\<lambda>x. Ajax (PostElapse (play_id (play c)) (x div 1000)))
             (crossings (previousPosition b) ps)
         \<and> (previousPosition b = 0 \<longrightarrow>
              snd (player_run (map (SoundElapseEv pid) [0, 10000, 29999, 30000, 30001, 61000]) p) =
                [Ajax (PostElapse (play_id (play c)) 30), Ajax (PostElapse (play_id (play c)) 61)])"
proof -
  have gen: "snd (player_run (map (SoundElapseEv pid) qs) q) =
           map (\<lambda>x. Ajax (PostElapse (play_id (play c)) (x div 1000)))
             (crossings (previousPosition d) qs)"
    if "activePlay q = Some d" "ap_id d = pid" "current (session q) = Some c"
      "\<not> destroyed q" for qs q d
    using that
  proof (induction qs arbitrary: q d)
    case Nil
    then show ?case by simp
  next
    case (Cons x xs)
    let ?q = "q\<lparr>activePlay := Some (d\<lparr>previousPosition := x\<rparr>)\<rparr>"
    have step: "onSoundElapse pid x q =
           (?q, if previousPosition d div 30000 \<noteq> x div 30000
            then [Ajax (PostElapse (play_id (play c)) (x div 1000))] else [])"
      using Cons.prems by (rule onSoundElapse_bound)
    have ih: "snd (player_run (map (SoundElapseEv pid) xs) ?q) =
           map (\<lambda>x. Ajax (PostElapse (play_id (play c)) (x div 1000))) (crossings x xs)"
      using Cons.IH [of ?q "d\<lparr>previousPosition := x\<rparr>"] Cons.prems by simp
    show ?case using step ih by (simp add: after_def)
  qed
  have a: "snd (player_run (map (SoundElapseEv pid) ps) p) =
           map (\<lambda>x. Ajax (PostElapse (play_id (play c)) (x div 1000)))
             (crossings (previousPosition b) ps)"
    using assms by (rule gen)
  have b: "snd (player_run (map (SoundElapseEv pid) [0, 10000, 29999, 30000, 30001, 61000]) p) =
                [Ajax (PostElapse (play_id (play c)) 30), Ajax (PostElapse (play_id (play c)) 61)]"
    if "previousPosition b = 0"
    using gen [OF assms, of "[0, 10000, 29999, 30000, 30001, 61000]"] that by simp
  show ?thesis using a b by blast
qed

text \<open>The listener's first play, acknowledged, driven through the six positions.\<close>

theorem elapse_reports_at_boundaries_witness:
  "snd (player_run (map (SoundElapseEv 101) [0, 10000, 29999, 30000, 30001, 61000])
          (after_run playing)) =
     [Ajax (PostElapse 101 30), Ajax (PostElapse 101 61)]"
proof -
  have b: "activePlay (after_run playing) =
             Some \<lparr>ap_id = 101, sound = 0, startReportedToServer = True,
                    soundCompleted = False, soundCompletedWithError = False,
                    playStarted = True, previousPosition = 0\<rparr>"
    by code_simp
  have c: "current (session (after_run playing)) =
             Some \<lparr>play = play_A, canSkip = True, started = True, retryCount = 0\<rparr>"
    by code_simp
  have i: "play_id play_A = 101" by (simp add: play_A_def)
  have d: "\<not> destroyed (after_run playing)"
    by code_simp
  show ?thesis
    using elapse_reports_at_boundaries [OF b _ c d, of 101] i by simp
qed

section \<open>Skipping\<close>

text \<open>
  Claim C4. A play is current. Asked to skip it once it has started, the Session emits
  \<^verbatim>\<open>skip-denied\<close> and sends nothing when \<open>canSkip\<close> is false, and sends the skip request
  when it is true. When the answer for that play, still current, is a success, the
  pending play becomes current in its place, or, with none pending, the Session is left
  without a play: waiting when a next-play request is out, exhausted otherwise. An
  answer that is not a success, and a failed request, emit \<^verbatim>\<open>skip-denied\<close> and change
  nothing.
\<close>

theorem skip_protocol:
  assumes cur: "current s = Some c"
  shows "(started c \<and> \<not> canSkip c \<longrightarrow> requestSkip s = (s, [Trigger SkipDenied]))
       \<and> (started c \<and> canSkip c \<longrightarrow> requestSkip s = (s, [Ajax (PostSkip (play c))]))
       \<and> receiveSkip (play c) True s =
           (case pendingPlay s of
              Some q \<Rightarrow>
                (s\<lparr>pendingPlay := None,
                   current := Some \<lparr>play = q, canSkip = False, started = False, retryCount = 0\<rparr>\<rparr>,
                 [Trigger (PlayCompleted (play c)), Trigger (PlayActive q)])
            | None \<Rightarrow>
                (s\<lparr>current := None\<rparr>,
                 Trigger (PlayCompleted (play c)) #
                 (if pendingRequest s \<noteq> None then [] else [Trigger PlaysExhausted])))
       \<and> receiveSkip (play c) False s = (s, [Trigger SkipDenied])
       \<and> failSkip (play c) s = (s, [Trigger SkipDenied])"
proof -
  have request: "requestSkip s =
      (if \<not> started c then (s, [Throw (Error ''No song has been started'')])
       else if \<not> canSkip c then (s, [Trigger SkipDenied])
       else (s, [Ajax (PostSkip (play c))]))"
    using cur by (simp add: requestSkip_def)
  have mine: "is_current (play c) s"
    using cur by (simp add: is_current_def)
  have denied: "receiveSkip (play c) False s = (s, [Trigger SkipDenied])"
    "failSkip (play c) s = (s, [Trigger SkipDenied])"
    using mine by (simp_all add: receiveSkip_def failSkip_def)
  have granted: "receiveSkip (play c) True s =
           (case pendingPlay s of
              Some q \<Rightarrow>
                (s\<lparr>pendingPlay := None,
                   current := Some \<lparr>play = q, canSkip = False, started = False, retryCount = 0\<rparr>\<rparr>,
                 [Trigger (PlayCompleted (play c)), Trigger (PlayActive q)])
            | None \<Rightarrow>
                (s\<lparr>current := None\<rparr>,
                 Trigger (PlayCompleted (play c)) #
                 (if pendingRequest s \<noteq> None then [] else [Trigger PlaysExhausted])))"
    using mine cur
    by (auto simp: receiveSkip_def assignCurrentPlay_def Let_def split: option.splits)
  show ?thesis using request denied granted by simp
qed

text \<open>The listener skips the acknowledged first play: the request goes out, and its
  success brings in the play that was waiting.\<close>

theorem skip_protocol_witness:
  "requestSkip (session (after_run playing)) =
     (session (after_run playing), [Ajax (PostSkip play_A)])
   \<and> snd (receiveSkip play_A True (session (after_run playing))) =
       [Trigger (PlayCompleted play_A), Trigger (PlayActive play_B)]
   \<and> receiveSkip play_A False (session (after_run playing)) =
       (session (after_run playing), [Trigger SkipDenied])
   \<and> failSkip play_A (session (after_run playing)) =
       (session (after_run playing), [Trigger SkipDenied])"
proof -
  have c: "current (session (after_run playing)) =
             Some \<lparr>play = play_A, canSkip = True, started = True, retryCount = 0\<rparr>"
    by code_simp
  have q: "pendingPlay (session (after_run playing)) = Some play_B"
    by code_simp
  show ?thesis
    using skip_protocol [OF c] q by simp
qed

section \<open>Acknowledging the start of a play\<close>

lemma failStartPlay_retry:
  "current s = Some c \<Longrightarrow> \<not> (status r = 403 \<and> error_code r = Some 20) \<Longrightarrow>
   failStartPlay (play c) r s =
     (s\<lparr>current := Some (c\<lparr>retryCount := retryCount c + 1\<rparr>)\<rparr>,
      [Delay 1000 (StartPlayT (play c))])"
  by (auto simp: failStartPlay_def)

lemma startPlay_request:
  "current s = Some c \<Longrightarrow> retryCount c \<le> 2 \<Longrightarrow>
   startPlay p s = (s, [Ajax (PostStart p)])"
  by (simp add: startPlay_def)

lemma startPlay_give_up:
  "current s = Some c \<Longrightarrow> 2 < retryCount c \<Longrightarrow>
   startPlay (play c) s =
     (s\<lparr>current := Some (c\<lparr>canSkip := True, started := True\<rparr>)\<rparr>,
      [Trigger (PlayStarted (play c)), ClientIdThen None])"
  by (simp add: startPlay_def receiveStartPlay_def requestNextPlay_def after_def)

text \<open>
  Claim C5. A play is current and its start requests fail (with any failure but the 403
  of error code 20). Each failure counts one retry and sets a timer of 1000 ms. When
  the timer fires the request is sent again as long as the count is at most 2; once it
  exceeds 2 the Session takes the start as acknowledged: the play is marked started
  and \<^verbatim>\<open>play-started\<close> is emitted. From a count of 0, reporting the start sends the
  request three times, the first attempt and two more, each 1000 ms after the failure
  before it, and the third failure ends in the assumed start.
\<close>

theorem start_ack_retry:
  assumes cur: "current s = Some c"
    and f1: "\<not> (status r1 = 403 \<and> error_code r1 = Some 20)"
    and f2: "\<not> (status r2 = 403 \<and> error_code r2 = Some 20)"
    and f3: "\<not> (status r3 = 403 \<and> error_code r3 = Some 20)"
  shows "failStartPlay (play c) r1 s =
           (s\<lparr>current := Some (c\<lparr>retryCount := retryCount c + 1\<rparr>)\<rparr>,
            [Delay 1000 (StartPlayT (play c))])
       \<and> (retryCount c \<le> 2 \<longrightarrow> startPlay (play c) s = (s, [Ajax (PostStart (play c))]))
       \<and> (2 < retryCount c \<longrightarrow>
            startPlay (play c) s =
              (s\<lparr>current := Some (c\<lparr>canSkip := True, started := True\<rparr>)\<rparr>,
               [Trigger (PlayStarted (play c)), ClientIdThen None]))
       \<and> (retryCount c = 0 \<longrightarrow>
            session_run
              [ReportPlayStarted,
               StartFail (play c) r1, Timer (StartPlayT (play c)),
               StartFail (play c) r2, Timer (StartPlayT (play c)),
               StartFail (play c) r3, Timer (StartPlayT (play c))] s =
              (s\<lparr>current := Some (c\<lparr>retryCount := 3, canSkip := True, started := True\<rparr>)\<rparr>,
               [Ajax (PostStart (play c)), Delay 1000 (StartPlayT (play c)),
                Ajax (PostStart (play c)), Delay 1000 (StartPlayT (play c)),
                Ajax (PostStart (play c)), Delay 1000 (StartPlayT (play c)),
                Trigger (PlayStarted (play c)), ClientIdThen None]))"
proof -
  have run: "session_run
              [ReportPlayStarted,
               StartFail (play c) r1, Timer (StartPlayT (play c)),
               StartFail (play c) r2, Timer (StartPlayT (play c)),
               StartFail (play c) r3, Timer (StartPlayT (play c))] s =
              (s\<lparr>current := Some (c\<lparr>retryCount := 3, canSkip := True, started := True\<rparr>)\<rparr>,
               [Ajax (PostStart (play c)), Delay 1000 (StartPlayT (play c)),
                Ajax (PostStart (play c)), Delay 1000 (StartPlayT (play c)),
                Ajax (PostStart (play c)), Delay 1000 (StartPlayT (play c)),
                Trigger (PlayStarted (play c)), ClientIdThen None])"
    if zero: "retryCount c = 0"
  proof -
    let ?c1 = "c\<lparr>retryCount := 1\<rparr>" and ?c2 = "c\<lparr>retryCount := 2\<rparr>" and ?c3 = "c\<lparr>retryCount := 3\<rparr>"
    let ?s1 = "s\<lparr>current := Some ?c1\<rparr>" and ?s2 = "s\<lparr>current := Some ?c2\<rparr>"
      and ?s3 = "s\<lparr>current := Some ?c3\<rparr>"
    have a0: "session_step ReportPlayStarted s = (s, [Ajax (PostStart (play c))])"
      using cur zero by (simp add: reportPlayStarted_def startPlay_request)
    have a1: "session_step (StartFail (play c) r1) s = (?s1, [Delay 1000 (StartPlayT (play c))])"
      using failStartPlay_retry [OF cur f1] zero by simp
    have b1: "session_step (Timer (StartPlayT (play c))) ?s1 = (?s1, [Ajax (PostStart (play c))])"
      using startPlay_request [of ?s1 ?c1 "play c"] by simp
    have a2: "session_step (StartFail (play c) r2) ?s1 = (?s2, [Delay 1000 (StartPlayT (play c))])"
      using failStartPlay_retry [of ?s1 ?c1 r2] f2 by simp
    have b2: "session_step (Timer (StartPlayT (play c))) ?s2 = (?s2, [Ajax (PostStart (play c))])"
      using startPlay_request [of ?s2 ?c2 "play c"] by simp
    have a3: "session_step (StartFail (play c) r3) ?s2 = (?s3, [Delay 1000 (StartPlayT (play c))])"
      using failStartPlay_retry [of ?s2 ?c2 r3] f3 by simp
    have b3: "session_step (Timer (StartPlayT (play c))) ?s3 =
                (s\<lparr>current := Some (c\<lparr>retryCount := 3, canSkip := True, started := True\<rparr>)\<rparr>,
                 [Trigger (PlayStarted (play c)), ClientIdThen None])"
      using startPlay_give_up [of ?s3 ?c3] by simp
    show ?thesis
      by (simp only: session_run.simps a0 a1 b1 a2 b2 a3 b3 after_def prod.case fst_conv snd_conv
          append.simps)
  qed
  show ?thesis
    using failStartPlay_retry [OF cur f1] startPlay_request [OF cur, of "play c"]
      startPlay_give_up [OF cur] run
    by blast
qed

text \<open>The listener's first play, whose start requests all fail with status 500.\<close>

theorem start_ack_retry_witness:
  "session_run
     [ReportPlayStarted,
      StartFail play_A server_error, Timer (StartPlayT play_A),
      StartFail play_A server_error, Timer (StartPlayT play_A),
      StartFail play_A server_error, Timer (StartPlayT play_A)]
     (session (after_run unacknowledged)) =
   ((session (after_run unacknowledged))
      \<lparr>current := Some \<lparr>play = play_A, canSkip = True, started = True, retryCount = 3\<rparr>\<rparr>,
    [Ajax (PostStart play_A), Delay 1000 (StartPlayT play_A),
     Ajax (PostStart play_A), Delay 1000 (StartPlayT play_A),
     Ajax (PostStart play_A), Delay 1000 (StartPlayT play_A),
     Trigger (PlayStarted play_A), ClientIdThen None])"
proof -
  have c: "current (session (after_run unacknowledged)) =
             Some \<lparr>play = play_A, canSkip = False, started = False, retryCount = 0\<rparr>"
    by code_simp
  have f: "\<not> (status server_error = 403 \<and> error_code server_error = Some 20)"
    by (simp add: server_error_def)
  show ?thesis
    using start_ack_retry [OF c f f f] by simp
qed

text \<open>
  Claim C10. A play is current. When its start is to be sent with more than 2 retries
  counted, and when a start request for it fails with status 403 and error code 20, the
  Session does what it does on a successful answer that allows skipping: the play is
  marked started and skippable, \<^verbatim>\<open>play-started\<close> is emitted and the next play is
  requested. No answer of the service about skipping enters into it.
\<close>

theorem assumed_start_is_skippable:
  assumes cur: "current s = Some c" and same: "obj (play c) = obj p"
  shows "(2 < retryCount c \<longrightarrow>
            startPlay p s = receiveStartPlay p \<lparr>success = True, can_skip = True\<rparr> s)
       \<and> (status r = 403 \<and> error_code r = Some 20 \<longrightarrow>
            failStartPlay p r s = receiveStartPlay p \<lparr>success = True, can_skip = True\<rparr> s)
       \<and> receiveStartPlay p \<lparr>success = True, can_skip = True\<rparr> s =
            (s\<lparr>current := Some (c\<lparr>canSkip := True, started := True\<rparr>)\<rparr>,
             [Trigger (PlayStarted p), ClientIdThen None])
       \<and> maybeCanSkip (fst (receiveStartPlay p \<lparr>success = True, can_skip = True\<rparr> s))"
proof -
  have fabricated: "receiveStartPlay p \<lparr>success = True, can_skip = True\<rparr> s =
            (s\<lparr>current := Some (c\<lparr>canSkip := True, started := True\<rparr>)\<rparr>,
             [Trigger (PlayStarted p), ClientIdThen None])"
    using cur same by (simp add: receiveStartPlay_def requestNextPlay_def after_def)
  have exhausted: "startPlay p s = receiveStartPlay p \<lparr>success = True, can_skip = True\<rparr> s"
    if "2 < retryCount c"
    using that cur by (simp add: startPlay_def)
  have missed: "failStartPlay p r s = receiveStartPlay p \<lparr>success = True, can_skip = True\<rparr> s"
    if "status r = 403 \<and> error_code r = Some 20"
    using that cur same by (simp add: failStartPlay_def)
  have "maybeCanSkip (fst (receiveStartPlay p \<lparr>success = True, can_skip = True\<rparr> s))"
    using fabricated by (simp add: maybeCanSkip_def)
  then show ?thesis using fabricated exhausted missed by blast
qed

text \<open>The listener's first play: a 403 with code 20 on its start, and a start sent after
  three failures.\<close>

theorem assumed_start_is_skippable_witness:
  "failStartPlay play_A already_started (session (after_run unacknowledged)) =
     ((session (after_run unacknowledged))
        \<lparr>current := Some \<lparr>play = play_A, canSkip = True, started = True, retryCount = 0\<rparr>\<rparr>,
      [Trigger (PlayStarted play_A), ClientIdThen None])
   \<and> startPlay play_A
       ((session (after_run unacknowledged))
          \<lparr>current := Some \<lparr>play = play_A, canSkip = False, started = False, retryCount = 3\<rparr>\<rparr>) =
     ((session (after_run unacknowledged))
        \<lparr>current := Some \<lparr>play = play_A, canSkip = True, started = True, retryCount = 3\<rparr>\<rparr>,
      [Trigger (PlayStarted play_A), ClientIdThen None])"
proof -
  let ?s = "session (after_run unacknowledged)"
  let ?c3 = "\<lparr>play = play_A, canSkip = False, started = False, retryCount = 3\<rparr>"
  have c: "current ?s = Some \<lparr>play = play_A, canSkip = False, started = False, retryCount = 0\<rparr>"
    by code_simp
  have c3: "current (?s\<lparr>current := Some ?c3\<rparr>) = Some ?c3"
    by simp
  have r: "status already_started = 403 \<and> error_code already_started = Some 20"
    by (simp add: already_started_def)
  show ?thesis
    using assumed_start_is_skippable [OF c, of play_A already_started]
      assumed_start_is_skippable [OF c3, of play_A already_started] r
    by simp
qed

section \<open>Completing a play\<close>

lemma reportPlayCompleted_started:
  "reportPlayCompleted s =
     (case current s of
        Some c \<Rightarrow>
          (if started c then (s, [Ajax (PostComplete (play_id (play c)))])
           else (s, [Throw (Error ''no active or playing song'')]))
      | None \<Rightarrow> (s, [Throw (Error ''no active or playing song'')]))"
  by (simp add: reportPlayCompleted_def)

lemma receivePlayCompleted_no_request:
  "pendingRequest s = None \<Longrightarrow>
   receivePlayCompleted s = assignCurrentPlay (pendingPlay s) False (s\<lparr>pendingPlay := None\<rparr>)"
  by (simp add: receivePlayCompleted_def)

lemma receivePlayCompleted_request_outstanding:
  "pendingRequest s = Some r \<Longrightarrow> current s = Some c \<Longrightarrow>
   receivePlayCompleted s = (s\<lparr>current := None\<rparr>, [Trigger (PlayCompleted (play c))])"
  by (simp add: receivePlayCompleted_def assignCurrentPlay_def)

text \<open>
  Claim C6. The code at the state in which a play is waiting and a next-play request is
  out as well, reached by the run \<open>double_click\<close> of the listener: the first play is
  current and started, the second is the pending play and the third request is
  outstanding. The answer to the completion retires the first play and emits
  \<^verbatim>\<open>play-completed\<close> only; no play becomes active, and the pending play stays where it
  was. The claim has the Session advance to the pending play there, as
  \<^verbatim>\<open>_receiveSkip\<close> and \<^verbatim>\<open>_receiveInvalidate\<close> do.
\<close>

theorem completion_with_request_outstanding_skips_pending_play:
  "current (session (after_run double_click)) =
     Some \<lparr>play = play_A, canSkip = True, started = True, retryCount = 0\<rparr>
   \<and> pendingPlay (session (after_run double_click)) = Some play_B
   \<and> pendingRequest (session (after_run double_click)) =
       Some \<lparr>ajax = request 2, req_retryCount = 0\<rparr>
   \<and> snd (player_step (ToSession CompleteAlways) (after_run double_click)) =
       [Trigger (PlayCompleted play_A), SoundDestroy 0]
   \<and> current (session (fst (player_step (ToSession CompleteAlways) (after_run double_click)))) = None
   \<and> pendingPlay (session (fst (player_step (ToSession CompleteAlways) (after_run double_click)))) =
       Some play_B"
  by code_simp

section \<open>Calls made with nothing playing\<close>

text \<open>
  Claim C9, as amended. A call of \<^verbatim>\<open>pause\<close> on a Player with no active play (no binding,
  or no current play in its Session; the Player not destroyed) returns without an error,
  an effect or a change.
  A call of \<^verbatim>\<open>reportPlayElapsed\<close> on a Session with no current play throws at once and
  sends nothing.
\<close>

theorem pause_is_silent_elapse_is_loud:
  "(\<not> destroyed p \<and> (activePlay p = None \<or> current (session p) = None) \<longrightarrow>
      player_pause p = (p, []))
   \<and> (current s = None \<longrightarrow>
        reportPlayElapsed seconds s =
          (s, [Throw (Error ''attempt to report elapsed play time, but the play hasn't started'')]))"
  by (auto simp: player_pause_def with_session_def hasActivePlayStarted_def
      reportPlayElapsed_def)

text \<open>The fresh listener: \<^verbatim>\<open>pause\<close> is ignored, the elapse report throws.\<close>

theorem pause_is_silent_elapse_is_loud_witness:
  "player_pause listener0 = (listener0, [])
   \<and> reportPlayElapsed 30 (session listener0) =
       (session listener0,
        [Throw (Error ''attempt to report elapsed play time, but the play hasn't started'')])"
proof -
  have a: "activePlay listener0 = None" and c: "current (session listener0) = None"
    and d: "\<not> destroyed listener0"
    by (simp_all add: listener0_def new_Player_def new_Session_def)
  show ?thesis
    using pause_is_silent_elapse_is_loud [of listener0 "session listener0" 30] a c d by simp
qed

text \<open>Claim C9 as stated fails for \<^verbatim>\<open>pause\<close>: the fresh listener has no active play, and
  its \<^verbatim>\<open>pause\<close> throws nothing.\<close>

theorem pause_without_play_counterexample:
  "activePlay listener0 = None \<and> current (session listener0) = None
   \<and> player_pause listener0 = (listener0, []) \<and> \<not> threw (snd (player_pause listener0))"
  by (simp add: listener0_def new_Player_def new_Session_def player_pause_def with_session_def
      hasActivePlayStarted_def threw_def truthy_str_def)

section \<open>Suspending and restoring\<close>

text \<open>
  Claim C8, as amended. A started play is suspended at position \<open>P\<close> and the saved state
  is restored into a fresh Player, whose Session is fresh. The saved play has the id of
  the suspended one; the restore emits \<^verbatim>\<open>play-active\<close> and \<^verbatim>\<open>play-started\<close> for it. The
  Sound made for it is given the start position \<open>P\<close> when \<open>P\<close> is not 0, and no start
  position when \<open>P\<close> is 0. The playing state is restored: the Session holds the play as
  current and started with the \<open>canSkip\<close> of the suspended play, so that its queries
  for the active play, for its being started and for the skip answer as those of the
  suspended Session do, and the Player is bound to the play. When playback is asked
  for, the Player registers the callback of \<^verbatim>\<open>play\<close> on the speaker's initialisation.
\<close>

theorem suspend_unsuspend_round_trip:
  assumes cur: "current s = Some c" and st: "started c"
  shows "saved_play (suspend P clone s) = Some ((play c)\<lparr>obj := clone, startPosition := Some P\<rparr>)
       \<and> saved_canSkip (suspend P clone s) = canSkip c
       \<and> snd (player_unsuspend (suspend P clone s) startPlayback (new_Player tok sec)) =
           identity_events s @
           [Trigger (PlacementEv (placement s)), Trigger (StationsEv (stations s)),
            Trigger (PlayActive ((play c)\<lparr>obj := clone, startPosition := Some P\<rparr>)),
            Create 0 (audio_url (play c)) (if P = 0 then None else Some P),
            Trigger (PlayStarted ((play c)\<lparr>obj := clone, startPosition := Some P\<rparr>)),
            ClientIdThen None] @
           (if startPlayback then [InitializeSpeakerThen PlayCallback] else [])
       \<and> current (session (fst (player_unsuspend (suspend P clone s) startPlayback (new_Player tok sec)))) =
           Some \<lparr>play = (play c)\<lparr>obj := clone, startPosition := Some P\<rparr>,
                  canSkip = canSkip c, started = True, retryCount = 0\<rparr>
       \<and> map_option play_id
           (getActivePlay (session (fst (player_unsuspend (suspend P clone s) startPlayback
                                           (new_Player tok sec))))) =
           map_option play_id (getActivePlay s)
       \<and> hasActivePlayStarted
           (session (fst (player_unsuspend (suspend P clone s) startPlayback (new_Player tok sec)))) =
           hasActivePlayStarted s
       \<and> maybeCanSkip
           (session (fst (player_unsuspend (suspend P clone s) startPlayback (new_Player tok sec)))) =
           maybeCanSkip s
       \<and> activePlay (fst (player_unsuspend (suspend P clone s) startPlayback (new_Player tok sec))) =
           Some \<lparr>ap_id = play_id (play c), sound = 0, startReportedToServer = True,
                  soundCompleted = False, soundCompletedWithError = False,
                  playStarted = False, previousPosition = 0\<rparr>"
proof -
  let ?r = "(play c)\<lparr>obj := clone, startPosition := Some P\<rparr>"
  let ?sv = "suspend P clone s"
  let ?u = "player_unsuspend ?sv startPlayback (new_Player tok sec)"
  have sv: "saved_play ?sv = Some ?r" "saved_canSkip ?sv = canSkip c"
    "saved_placement ?sv = placement s" "saved_stations ?sv = stations s"
    "saved_placementId ?sv = (if truthy_num (placementId s) then placementId s else None)"
    "saved_stationId ?sv = (if truthy_num (stationId s) then stationId s else None)"
    using cur st by (simp_all add: suspend_def)
  have u: "snd ?u =
      identity_events s @
      [Trigger (PlacementEv (placement s)), Trigger (StationsEv (stations s)),
       Trigger (PlayActive ?r),
       Create 0 (audio_url (play c)) (if P = 0 then None else Some P),
       Trigger (PlayStarted ?r), ClientIdThen None] @
      (if startPlayback then [InitializeSpeakerThen PlayCallback] else [])"
    "current (session (fst ?u)) =
       Some \<lparr>play = ?r, canSkip = canSkip c, started = True, retryCount = 0\<rparr>"
    "activePlay (fst ?u) =
       Some \<lparr>ap_id = play_id (play c), sound = 0, startReportedToServer = True,
              soundCompleted = False, soundCompletedWithError = False,
              playStarted = False, previousPosition = 0\<rparr>"
    using sv
    by (simp_all add: player_unsuspend_def call_session_def with_session_def on_session_def
        unsuspend_def getActivePlay_def
        new_Player_def new_Session_def assignCurrentPlay_def receiveStartPlay_def
        requestNextPlay_def after_def Let_def onPlayActive_def onPlayStarted_def
        truthy_num_def identity_events_def threw_def play_when_ready_def this_session_def
        split: option.splits)
  have q: "map_option play_id (getActivePlay (session (fst ?u))) = map_option play_id (getActivePlay s)"
    "hasActivePlayStarted (session (fst ?u)) = hasActivePlayStarted s"
    "maybeCanSkip (session (fst ?u)) = maybeCanSkip s"
    using u(2) cur st
    by (simp_all add: getActivePlay_def hasActivePlayStarted_def maybeCanSkip_def)
  show ?thesis
    using sv(1,2) u q by simp
qed


text \<open>The listener's acknowledged first play, suspended 45 seconds in.\<close>

theorem suspend_unsuspend_round_trip_witness:
  "snd (player_unsuspend (suspend 45000 7 (session (after_run playing))) True listener0) =
     [Trigger (PlacementChanged 5), Trigger (StationChanged 9),
      Trigger (PlacementEv (Some \<lparr>placement_ident = 5\<rparr>)),
      Trigger (StationsEv (Some [\<lparr>station_ident = 9\<rparr>])),
      Trigger (PlayActive (play_A\<lparr>obj := 7, startPosition := Some 45000\<rparr>)),
      Create 0 ''a.mp3'' (Some 45000),
      Trigger (PlayStarted (play_A\<lparr>obj := 7, startPosition := Some 45000\<rparr>)),
      ClientIdThen None, InitializeSpeakerThen PlayCallback]
   \<and> current (session (fst (player_unsuspend (suspend 45000 7 (session (after_run playing)))
                               True listener0))) =
       Some \<lparr>play = play_A\<lparr>obj := 7, startPosition := Some 45000\<rparr>,
              canSkip = True, started = True, retryCount = 0\<rparr>"
proof -
  let ?s = "session (after_run playing)"
  have c: "current ?s = Some \<lparr>play = play_A, canSkip = True, started = True, retryCount = 0\<rparr>"
    by code_simp
  have i: "identity_events ?s = [Trigger (PlacementChanged 5), Trigger (StationChanged 9)]"
    by code_simp
  have pl: "placement ?s = Some \<lparr>placement_ident = 5\<rparr>"
    "stations ?s = Some [\<lparr>station_ident = 9\<rparr>]"
    by code_simp+
  have u: "audio_url play_A = ''a.mp3''" by (simp add: play_A_def)
  show ?thesis
    using suspend_unsuspend_round_trip [OF c, of 45000 7 True "Some ''token''" "Some ''secret''"]
      i pl u
    by (simp add: listener0_def)
qed

text \<open>Claim C8 as stated fails at position 0: the Sound of the restored play is created
  with no start position, not with the start position 0.\<close>

theorem start_position_zero_is_not_passed:
  "Create 0 ''a.mp3'' (Some 0) \<notin>
     set (snd (player_unsuspend (suspend 0 7 (session (after_run playing))) False listener0))
   \<and> Create 0 ''a.mp3'' None \<in>
     set (snd (player_unsuspend (suspend 0 7 (session (after_run playing))) False listener0))"
  by code_simp


end
